theory Spec2Isabelle
  imports Complex_Main
begin

section \<open>Strings and JavaScript truthiness\<close>

text \<open>
  A JavaScript string is a list of characters, ASCII text standing for itself. The
  services compare strings, concatenate them, test them for emptiness and convert their
  case. \<open>String.prototype.toLowerCase\<close> and \<open>toUpperCase\<close> are the Unicode conversions
  of the runtime and not part of the sources: they are parameters of the model (the
  fields \<open>toLowerCase\<close> and \<open>toUpperCase\<close> of the environment below), so the results
  hold whatever they do to a string, except where a property of them is a stated
  hypothesis, and how characters beyond ASCII are represented plays no part.

  \<open>ascii_toLowerCase\<close> and \<open>ascii_toUpperCase\<close> are one instance, used in the examples:
  they map the letters A-Z and a-z onto each other and leave every other character alone,
  as the conversions of the runtime do on ASCII text.
\<close>

definition ascii_toLowerCase_char :: "char \<Rightarrow> char" where
  "ascii_toLowerCase_char c =
     (let n = (of_char c :: nat) in if 65 \<le> n \<and> n \<le> 90 then char_of (n + 32) else c)"

definition ascii_toUpperCase_char :: "char \<Rightarrow> char" where
  "ascii_toUpperCase_char c =
     (let n = (of_char c :: nat) in if 97 \<le> n \<and> n \<le> 122 then char_of (n - 32) else c)"

definition ascii_toLowerCase :: "string \<Rightarrow> string" where
  "ascii_toLowerCase s = map ascii_toLowerCase_char s"

definition ascii_toUpperCase :: "string \<Rightarrow> string" where
  "ascii_toUpperCase s = map ascii_toUpperCase_char s"

text \<open>
  A string-valued field that may be \<open>null\<close> or \<open>undefined\<close> is a \<open>string option\<close>.
  \<open>truthy\<close> is the test \<open>if (x)\<close> on such a field (the empty string is falsy),
  \<open>js_or x d\<close> is \<open>x || d\<close>, and \<open>template x\<close> is the rendering of \<open>x\<close> inside a
  template literal.
\<close>

fun truthy :: "string option \<Rightarrow> bool" where
  "truthy None = False"
| "truthy (Some s) = (s \<noteq> [])"

fun js_or :: "string option \<Rightarrow> string \<Rightarrow> string" where
  "js_or None d = d"
| "js_or (Some s) d = (if s = [] then d else s)"

fun template :: "string option \<Rightarrow> string" where
  "template None = ''undefined''"
| "template (Some s) = s"

fun string_of_nat :: "nat \<Rightarrow> string" where
  "string_of_nat n =
     (if n < 10 then [char_of (48 + n)]
      else string_of_nat (n div 10) @ [char_of (48 + n mod 10)])"

declare string_of_nat.simps [simp del]

section \<open>JavaScript numbers\<close>

text \<open>
  An amount is a JavaScript number, an IEEE 754 binary64 value. The model carries the
  value of a finite double as a rational. Comparisons are exact. \<open>+\<close> and \<open>-\<close> give
  the exact result rounded to the nearest double, ties to even (\<open>round64\<close>): 53
  significant bits, exponents from -1022 (below it the spacing stays 2 to the -1074) to
  1023. Results of magnitude 2 to the 1024 or more (Infinity) and NaN are outside the
  model.
\<close>

definition pow2 :: "int \<Rightarrow> rat" where
  "pow2 e = (if 0 \<le> e then 2 ^ nat e else 1 / 2 ^ nat (- e))"

definition roundTiesToEven :: "rat \<Rightarrow> int" where
  "roundTiesToEven y =
     (let f = \<lfloor>y\<rfloor>; r = y - of_int f
      in if r < 1 / 2 then f else if 1 / 2 < r then f + 1 else if even f then f else f + 1)"

text \<open>
  \<open>bisect n x lo hi\<close> narrows the interval of exponents in \<open>n\<close> halving steps to the
  greatest \<open>e\<close> with \<open>pow2 e \<le> x\<close>, or to \<open>lo\<close> when there is none; twelve steps
  cover the exponents of a double.
\<close>

primrec bisect :: "nat \<Rightarrow> rat \<Rightarrow> int \<Rightarrow> int \<Rightarrow> int" where
  "bisect 0 x lo hi = lo"
| "bisect (Suc n) x lo hi =
     (let mid = (lo + hi + 1) div 2
      in if pow2 mid \<le> x then bisect n x mid hi else bisect n x lo (mid - 1))"

definition exponent_of :: "rat \<Rightarrow> int" where
  "exponent_of x =
     bisect (Suc (Suc (Suc (Suc (Suc (Suc (Suc (Suc (Suc (Suc (Suc (Suc 0))))))))))))
       x (- 1022) 1023"

definition round_magnitude :: "rat \<Rightarrow> rat" where
  "round_magnitude x =
     (let u = pow2 (exponent_of x - 52) in of_int (roundTiesToEven (x / u)) * u)"

definition round64 :: "rat \<Rightarrow> rat" where
  "round64 x = (if x < 0 then - round_magnitude (- x) else round_magnitude x)"

definition js_add :: "rat \<Rightarrow> rat \<Rightarrow> rat" where
  "js_add x y = round64 (x + y)"

definition js_sub :: "rat \<Rightarrow> rat \<Rightarrow> rat" where
  "js_sub x y = round64 (x - y)"

section \<open>The payout provider (paypal.service.ts)\<close>

text \<open>
  \<open>BadRequestException msg\<close> is the only exception the two services throw; its
  \<open>message\<close> is \<open>msg\<close>. A \<open>js_error\<close> is what the SDK client throws.
\<close>

datatype exception = BadRequestException string

fun exception_message :: "exception \<Rightarrow> string" where
  "exception_message (BadRequestException m) = m"

record js_error =
  statusCode :: "nat option"
  error_message :: "string option"

record payout_errors =
  message :: "string option"

record payout_item =
  payout_item_id :: "string option"
  transaction_status :: "string option"
  errors :: "payout_errors option"

record batch_header_t =
  payout_batch_id :: "string option"
  batch_status :: "string option"

text \<open>
  The \<open>result\<close> of a response. A batch response carries \<open>batch_header\<close> and \<open>items\<close>;
  an item response carries the fields of an item itself and the \<open>payout_item\<close> detail.
\<close>

record payout_item_detail =
  detail_amount :: "string option"
  receiver :: "string option"

record payout_result = payout_item +
  batch_header :: "batch_header_t option"
  items :: "payout_item list option"
  payout_item_detail :: "payout_item_detail option"

record response =
  result :: "payout_result option"

datatype request =
    PayoutsPostRequest string rat string
  | PayoutsGetRequest string
  | PayoutsItemGetRequest string

text \<open>
  The environment of the two services: the SDK client and the case conversions of the
  runtime. \<open>client cl n req\<close> is what \<open>client.execute(req)\<close> does when it is the
  \<open>n\<close>-th call made so far: it throws (\<open>Inl\<close>) or returns a response.
\<close>

record env =
  client :: "nat \<Rightarrow> request \<Rightarrow> js_error + response"
  toLowerCase :: "string \<Rightarrow> string"
  toUpperCase :: "string \<Rightarrow> string"

section \<open>The ledger (wallet.service.ts)\<close>

text \<open>Repository calls always succeed, and operations run one after the other.\<close>

text \<open>
  Modelled from the spec: the wallet entity is not among the sources; a wallet is
  "identified by creator identifier (unique)", holds a balance, an optional payout email
  and a verification flag. The balance is a JavaScript number.
\<close>

record wallet =
  creatorId :: string
  balance :: rat
  paypalEmail :: "string option"
  paypalVerified :: bool

datatype withdrawal_status = PENDING | PROCESSING | COMPLETED | FAILED

text \<open>
  Modelled from the spec: the withdrawal entity is not among the sources; a withdrawal
  is "identified by a generated id", here its position in the table. The fields \<open>id\<close>,
  \<open>creatorId\<close> and \<open>paypalEmail\<close> of a withdrawal are \<open>wd_id\<close>, \<open>wd_creatorId\<close> and
  \<open>wd_paypalEmail\<close>; \<open>createdAt\<close> is the time the caller passes as \<open>now\<close>.
\<close>

record withdrawal =
  wd_id :: nat
  wd_creatorId :: string
  amount :: rat
  status :: withdrawal_status
  wd_paypalEmail :: "string option"
  createdAt :: nat
  paypalBatchId :: "string option"
  paypalPayoutItemId :: "string option"
  failureReason :: "string option"

datatype console_entry =
    FailedToUpdate nat exception
  | FailedItemStatus string exception

text \<open>
  The state: the two tables, the requests sent to the provider so far, and the
  \<open>console.error\<close> lines of the reconciliation loop (the other log lines are left
  out). The wallet table is searched by \<open>creatorId\<close>.
\<close>

record state =
  wallets :: "wallet list"
  withdrawals :: "withdrawal list"
  calls :: "request list"
  console_error :: "console_entry list"

definition execute :: "env \<Rightarrow> request \<Rightarrow> state \<Rightarrow> (js_error + response) \<times> state" where
  "execute cl req s = (client cl (length (calls s)) req, s\<lparr>calls := calls s @ [req]\<rparr>)"

subsection \<open>sendPayout\<close>

record payout_sent =
  sent_batchId :: "string option"
  sent_status :: "string option"
  sent_payoutItemId :: "string option"

definition sendPayout_catch :: "js_error \<Rightarrow> exception" where
  "sendPayout_catch e =
     (case statusCode e of
        Some (Suc n) \<Rightarrow>
          BadRequestException
            (''PayPal payout failed ('' @ string_of_nat (Suc n) @ ''): '' @ template (error_message e))
      | _ \<Rightarrow>
          BadRequestException
            (''PayPal payout failed: '' @ js_or (error_message e) ''Unknown error''))"

definition invalid_structure :: js_error where
  "invalid_structure =
     \<lparr>statusCode = None, error_message = Some ''Invalid PayPal response structure''\<rparr>"

definition sendPayout ::
  "env \<Rightarrow> string \<Rightarrow> rat \<Rightarrow> string \<Rightarrow> state \<Rightarrow> (exception + payout_sent) \<times> state" where
  "sendPayout cl recipientEmail amt currency s =
     (case execute cl (PayoutsPostRequest recipientEmail amt currency) s of
        (Inl e, s1) \<Rightarrow> (Inl (sendPayout_catch e), s1)
      | (Inr resp, s1) \<Rightarrow>
          (case result resp of
             None \<Rightarrow> (Inl (sendPayout_catch invalid_structure), s1)
           | Some r \<Rightarrow>
               (case batch_header r of
                  None \<Rightarrow> (Inl (sendPayout_catch invalid_structure), s1)
                | Some bh \<Rightarrow>
                    (Inr \<lparr>sent_batchId = payout_batch_id bh,
                          sent_status = batch_status bh,
                          sent_payoutItemId =
                            (case items r of
                               Some (it # rest) \<Rightarrow> payout_item_id it
                             | _ \<Rightarrow> None)\<rparr>, s1))))"

subsection \<open>normalizeTransactionStatus\<close>

definition normalizeTransactionStatus :: "env \<Rightarrow> string option \<Rightarrow> string" where
  "normalizeTransactionStatus cl st =
     (case st of
        None \<Rightarrow> ''UNKNOWN''
      | Some s \<Rightarrow>
          if s = [] then ''UNKNOWN''
          else
            (let normalizedStatus = toLowerCase cl s in
             if normalizedStatus = ''success'' \<or> normalizedStatus = ''completed''
                \<or> normalizedStatus = ''claimed'' then ''SUCCESS''
             else if normalizedStatus = ''failed'' \<or> normalizedStatus = ''returned''
                \<or> normalizedStatus = ''refunded'' \<or> normalizedStatus = ''blocked'' then ''FAILED''
             else if normalizedStatus = ''pending'' \<or> normalizedStatus = ''unclaimed''
               then ''PENDING''
             else toUpperCase cl s))"

subsection \<open>getPayoutStatus and getPayoutItemStatus\<close>

record payout_status =
  batchId :: string
  batch_state :: string
  status_items :: "payout_item list"

record item_status =
  itemId :: "string option"
  item_state :: string
  item_amount :: "string option"
  recipient :: "string option"
  item_errors :: "payout_errors option"

definition getPayoutStatus_catch :: "js_error \<Rightarrow> exception" where
  "getPayoutStatus_catch e =
     (case statusCode e of
        Some (Suc n) \<Rightarrow>
          BadRequestException
            (''Failed to get payout status ('' @ string_of_nat (Suc n) @ ''): ''
               @ template (error_message e))
      | _ \<Rightarrow>
          BadRequestException
            (''Failed to get payout status: '' @ js_or (error_message e) ''Unknown error''))"

definition normalize_item :: "env \<Rightarrow> payout_item \<Rightarrow> payout_item" where
  "normalize_item cl item =
     item\<lparr>transaction_status :=
            Some (normalizeTransactionStatus cl (transaction_status item))\<rparr>"

definition getPayoutStatus ::
  "env \<Rightarrow> string \<Rightarrow> state \<Rightarrow> (exception + payout_status) \<times> state" where
  "getPayoutStatus cl payoutBatchId s =
     (case execute cl (PayoutsGetRequest payoutBatchId) s of
        (Inl e, s1) \<Rightarrow> (Inl (getPayoutStatus_catch e), s1)
      | (Inr resp, s1) \<Rightarrow>
          (let batchHeader = Option.bind (result resp) batch_header;
               its = (case Option.bind (result resp) items of None \<Rightarrow> [] | Some xs \<Rightarrow> xs);
               batchStatus = Option.bind batchHeader batch_status
           in (Inr \<lparr>batchId = js_or (Option.bind batchHeader payout_batch_id) payoutBatchId,
                    batch_state = js_or batchStatus ''UNKNOWN'',
                    status_items = map (normalize_item cl) its\<rparr>, s1)))"

definition getPayoutItemStatus ::
  "env \<Rightarrow> string \<Rightarrow> state \<Rightarrow> (exception + item_status) \<times> state" where
  "getPayoutItemStatus cl payoutItemId s =
     (case execute cl (PayoutsItemGetRequest payoutItemId) s of
        (Inl e, s1) \<Rightarrow>
          (Inl (BadRequestException
                  (''Failed to get payout item status: ''
                     @ js_or (error_message e) ''Unknown error'')), s1)
      | (Inr resp, s1) \<Rightarrow>
          (Inr \<lparr>itemId = Option.bind (result resp) payout_item_id,
                item_state =
                  normalizeTransactionStatus cl
                    (Option.bind (result resp) transaction_status),
                item_amount =
                  Option.bind (Option.bind (result resp) payout_item_detail) detail_amount,
                recipient = Option.bind (Option.bind (result resp) payout_item_detail) receiver,
                item_errors = Option.bind (result resp) errors\<rparr>, s1))"

subsection \<open>The repositories\<close>

definition findWallet :: "string \<Rightarrow> state \<Rightarrow> wallet option" where
  "findWallet c s = List.find (\<lambda>w. creatorId w = c) (wallets s)"

fun save_wallet_rows :: "wallet \<Rightarrow> wallet list \<Rightarrow> wallet list" where
  "save_wallet_rows w [] = [w]"
| "save_wallet_rows w (x # xs) =
     (if creatorId x = creatorId w then w # xs else x # save_wallet_rows w xs)"

definition saveWallet :: "wallet \<Rightarrow> state \<Rightarrow> state" where
  "saveWallet w s = s\<lparr>wallets := save_wallet_rows w (wallets s)\<rparr>"

definition findWithdrawal :: "nat \<Rightarrow> state \<Rightarrow> withdrawal option" where
  "findWithdrawal i s =
     (if i < length (withdrawals s) then Some (withdrawals s ! i) else None)"

text \<open>\<open>insertWithdrawal\<close> is \<open>save\<close> on an entity that has no id yet.\<close>

definition insertWithdrawal :: "withdrawal \<Rightarrow> state \<Rightarrow> withdrawal \<times> state" where
  "insertWithdrawal w s =
     (let saved = w\<lparr>wd_id := length (withdrawals s)\<rparr>
      in (saved, s\<lparr>withdrawals := withdrawals s @ [saved]\<rparr>))"

definition saveWithdrawal :: "withdrawal \<Rightarrow> state \<Rightarrow> state" where
  "saveWithdrawal w s =
     (if wd_id w < length (withdrawals s)
      then s\<lparr>withdrawals := (withdrawals s)[wd_id w := w]\<rparr>
      else s\<lparr>withdrawals := withdrawals s @ [w]\<rparr>)"

subsection \<open>createWallet, linkPayPal\<close>

definition createWallet :: "string \<Rightarrow> state \<Rightarrow> (exception + wallet) \<times> state" where
  "createWallet c s =
     (case findWallet c s of
        Some existingWallet \<Rightarrow>
          (Inl (BadRequestException ''Wallet already exists for this creator.''), s)
      | None \<Rightarrow>
          (let newWallet =
                 \<lparr>creatorId = c, balance = 0, paypalEmail = None, paypalVerified = False\<rparr>
           in (Inr newWallet, saveWallet newWallet s)))"

definition linkPayPal :: "string \<Rightarrow> string \<Rightarrow> state \<Rightarrow> (exception + wallet) \<times> state" where
  "linkPayPal c email s =
     (case findWallet c s of
        None \<Rightarrow> (Inl (BadRequestException ''Wallet not found''), s)
      | Some w \<Rightarrow>
          (let w' = w\<lparr>paypalEmail := Some email, paypalVerified := True\<rparr>
           in (Inr w', saveWallet w' s)))"

text \<open>
  Modelled from the spec: the code that credits earnings to a wallet is not among the
  sources. A deposit adds its amount to the balance of the creator's wallet; without a
  wallet nothing is credited.
\<close>

definition deposit :: "string \<Rightarrow> rat \<Rightarrow> state \<Rightarrow> state" where
  "deposit c amt s =
     (case findWallet c s of
        None \<Rightarrow> s
      | Some w \<Rightarrow> saveWallet (w\<lparr>balance := js_add (balance w) amt\<rparr>) s)"

subsection \<open>requestWithdrawal\<close>

text \<open>The checks of lines 57-77; they return the loaded wallet.\<close>

definition requestWithdrawal_validate ::
  "string \<Rightarrow> rat \<Rightarrow> state \<Rightarrow> exception + wallet" where
  "requestWithdrawal_validate c amt s =
     (if amt \<le> 0 then Inl (BadRequestException ''Invalid withdrawal amount'')
      else if amt < 5 then Inl (BadRequestException ''Minimum withdrawal amount is $5'')
      else
        (case findWallet c s of
           None \<Rightarrow> Inl (BadRequestException ''Wallet not found'')
         | Some w \<Rightarrow>
             if \<not> truthy (paypalEmail w)
               then Inl (BadRequestException ''Please link your PayPal account first'')
             else if amt > balance w then Inl (BadRequestException ''Insufficient balance'')
             else Inr w))"

text \<open>
  Lines 79-90: the withdrawal is created PENDING, the wallet is debited, both are saved.
  The result is the wallet object, the saved withdrawal and the state.
\<close>

definition requestWithdrawal_debit ::
  "nat \<Rightarrow> wallet \<Rightarrow> string \<Rightarrow> rat \<Rightarrow> state \<Rightarrow> wallet \<times> withdrawal \<times> state" where
  "requestWithdrawal_debit now w c amt s =
     (let wdr = \<lparr>wd_id = 0, wd_creatorId = c, amount = amt, status = PENDING,
                  wd_paypalEmail = paypalEmail w, createdAt = now, paypalBatchId = None,
                  paypalPayoutItemId = None, failureReason = None\<rparr>;
          w1 = w\<lparr>balance := js_sub (balance w) amt\<rparr>;
          s1 = saveWallet w1 s;
          (savedWithdrawal, s2) = insertWithdrawal wdr s1
      in (w1, savedWithdrawal, s2))"

text \<open>Lines 92-119: the payout is submitted; a failure is compensated and rethrown.\<close>

definition requestWithdrawal_submit ::
  "env \<Rightarrow> wallet \<Rightarrow> withdrawal \<Rightarrow> rat \<Rightarrow> state
     \<Rightarrow> (exception + withdrawal \<times> string) \<times> state" where
  "requestWithdrawal_submit cl w savedWithdrawal amt s =
     (case sendPayout cl (template (paypalEmail w)) amt ''USD'' s of
        (Inr payoutResult, s1) \<Rightarrow>
          (let saved = savedWithdrawal\<lparr>paypalBatchId := sent_batchId payoutResult,
                         paypalPayoutItemId := sent_payoutItemId payoutResult,
                         status := PROCESSING\<rparr>
           in (Inr (saved,
                 ''Withdrawal request submitted successfully. Processing via PayPal.''),
               saveWithdrawal saved s1))
      | (Inl err, s1) \<Rightarrow>
          (let w2 = w\<lparr>balance := js_add (balance w) amt\<rparr>;
               s2 = saveWallet w2 s1;
               failed = savedWithdrawal\<lparr>status := FAILED,
                          failureReason := Some (exception_message err)\<rparr>
           in (Inl (BadRequestException (''Withdrawal failed: '' @ exception_message err)),
               saveWithdrawal failed s2)))"

definition requestWithdrawal ::
  "env \<Rightarrow> nat \<Rightarrow> string \<Rightarrow> rat \<Rightarrow> state \<Rightarrow> (exception + withdrawal \<times> string) \<times> state" where
  "requestWithdrawal cl now c amt s =
     (case requestWithdrawal_validate c amt s of
        Inl e \<Rightarrow> (Inl e, s)
      | Inr w \<Rightarrow>
          (case requestWithdrawal_debit now w c amt s of
             (w1, savedWithdrawal, s1) \<Rightarrow> requestWithdrawal_submit cl w1 savedWithdrawal amt s1))"

subsection \<open>refundToWallet, updateWithdrawalFromItem\<close>

definition refundToWallet :: "withdrawal \<Rightarrow> state \<Rightarrow> state" where
  "refundToWallet wdr s =
     (case findWallet (wd_creatorId wdr) s of
        None \<Rightarrow> s
      | Some w \<Rightarrow> saveWallet (w\<lparr>balance := js_add (balance w) (amount wdr)\<rparr>) s)"

definition errors_message :: "payout_errors option \<Rightarrow> string option" where
  "errors_message e = Option.bind e message"

definition updateWithdrawalFromItem ::
  "env \<Rightarrow> withdrawal \<Rightarrow> payout_item \<Rightarrow> state \<Rightarrow> withdrawal \<times> state" where
  "updateWithdrawalFromItem cl wdr item s =
     (let st = map_option (toLowerCase cl) (transaction_status item) in
      if st = Some ''success'' \<or> st = Some ''completed'' \<or> st = Some ''claimed'' then
        (let w1 = wdr\<lparr>status := COMPLETED\<rparr> in (w1, saveWithdrawal w1 s))
      else if st = Some ''failed'' \<or> st = Some ''returned'' \<or> st = Some ''refunded''
              \<or> st = Some ''blocked'' then
        (let w1 = wdr\<lparr>status := FAILED,
                      failureReason :=
                        Some (js_or (errors_message (errors item))
                                (''PayPal transaction '' @ template st))\<rparr>
         in (w1, saveWithdrawal w1 (refundToWallet w1 s)))
      else (wdr, s))"

subsection \<open>updateWithdrawalStatuses\<close>

text \<open>
  The loop over the items of a batch (lines 152-165); \<open>n\<close> is \<open>payoutStatus.items.length\<close>.
\<close>

fun updateFromItems ::
  "env \<Rightarrow> withdrawal \<Rightarrow> nat \<Rightarrow> payout_item list \<Rightarrow> state \<Rightarrow> withdrawal \<times> state" where
  "updateFromItems cl wdr n [] s = (wdr, s)"
| "updateFromItems cl wdr n (item # rest) s =
     (if truthy (paypalPayoutItemId wdr) \<and> payout_item_id item = paypalPayoutItemId wdr
        then updateWithdrawalFromItem cl wdr item s
      else if \<not> truthy (paypalPayoutItemId wdr) \<and> n = 1
        then updateWithdrawalFromItem cl wdr item s
      else updateFromItems cl wdr n rest s)"

text \<open>The second check, against the item endpoint (lines 168-188), with its own catch.\<close>

definition checkItemStatus :: "env \<Rightarrow> withdrawal \<Rightarrow> state \<Rightarrow> state" where
  "checkItemStatus cl wdr s =
     (case paypalPayoutItemId wdr of
        None \<Rightarrow> s
      | Some iid \<Rightarrow>
          if iid \<noteq> [] \<and> status wdr = PROCESSING then
            (case getPayoutItemStatus cl iid s of
               (Inl itemError, s1) \<Rightarrow>
                 s1\<lparr>console_error := console_error s1 @ [FailedItemStatus iid itemError]\<rparr>
             | (Inr itemStatus, s1) \<Rightarrow>
                 if item_state itemStatus = ''SUCCESS'' then
                   saveWithdrawal (wdr\<lparr>status := COMPLETED\<rparr>) s1
                 else if item_state itemStatus = ''FAILED'' then
                   (let w1 = wdr\<lparr>status := FAILED,
                                 failureReason :=
                                   Some (js_or (errors_message (item_errors itemStatus))
                                           ''PayPal transaction failed'')\<rparr>
                    in saveWithdrawal w1 (refundToWallet w1 s1))
                 else s1)
          else s)"

text \<open>The body of the outer \<open>try\<close> (lines 143-188): only the batch fetch can throw out.\<close>

definition checkWithdrawal ::
  "env \<Rightarrow> withdrawal \<Rightarrow> string \<Rightarrow> state \<Rightarrow> (exception + unit) \<times> state" where
  "checkWithdrawal cl wdr bid s =
     (case getPayoutStatus cl bid s of
        (Inl e, s1) \<Rightarrow> (Inl e, s1)
      | (Inr payoutStatus, s1) \<Rightarrow>
          (case (if status_items payoutStatus \<noteq> []
                 then updateFromItems cl wdr (length (status_items payoutStatus))
                        (status_items payoutStatus) s1
                 else (wdr, s1)) of
             (w1, s2) \<Rightarrow> (Inr (), checkItemStatus cl w1 s2)))"

text \<open>One iteration of the loop over the PROCESSING withdrawals (lines 141-193).\<close>

definition processWithdrawal :: "env \<Rightarrow> withdrawal \<Rightarrow> state \<Rightarrow> state" where
  "processWithdrawal cl wdr s =
     (case paypalBatchId wdr of
        None \<Rightarrow> s
      | Some bid \<Rightarrow>
          if bid = [] then s
          else
            (case checkWithdrawal cl wdr bid s of
               (Inl e, s1) \<Rightarrow>
                 s1\<lparr>console_error := console_error s1 @ [FailedToUpdate (wd_id wdr) e]\<rparr>
             | (Inr u, s1) \<Rightarrow> s1))"

fun processAll :: "env \<Rightarrow> withdrawal list \<Rightarrow> state \<Rightarrow> state" where
  "processAll cl [] s = s"
| "processAll cl (wdr # rest) s = processAll cl rest (processWithdrawal cl wdr s)"

definition processingWithdrawals :: "state \<Rightarrow> withdrawal list" where
  "processingWithdrawals s = filter (\<lambda>w. status w = PROCESSING) (withdrawals s)"

definition updateWithdrawalStatuses :: "env \<Rightarrow> state \<Rightarrow> state" where
  "updateWithdrawalStatuses cl s = processAll cl (processingWithdrawals s) s"

subsection \<open>forceCheckWithdrawal\<close>

definition forceCheckWithdrawal ::
  "env \<Rightarrow> nat \<Rightarrow> state \<Rightarrow> (exception + string \<times> withdrawal option) \<times> state" where
  "forceCheckWithdrawal cl withdrawalId s =
     (case findWithdrawal withdrawalId s of
        None \<Rightarrow> (Inl (BadRequestException ''Withdrawal not found''), s)
      | Some wdr \<Rightarrow>
          if status wdr \<noteq> PROCESSING
            then (Inr (''Withdrawal is not in processing status'', None), s)
          else if \<not> truthy (paypalBatchId wdr)
            then (Inl (BadRequestException ''No PayPal batch ID found''), s)
          else
            (case getPayoutStatus cl (template (paypalBatchId wdr)) s of
               (Inl e, s1) \<Rightarrow>
                 (Inl (BadRequestException
                         (''Failed to check withdrawal status: '' @ exception_message e)), s1)
             | (Inr payoutStatus, s1) \<Rightarrow>
                 (case status_items payoutStatus of
                    [] \<Rightarrow> (Inr (''Status check completed'', Some wdr), s1)
                  | item # rest \<Rightarrow>
                      (case updateWithdrawalFromItem cl wdr item s1 of
                         (w1, s2) \<Rightarrow> (Inr (''Status check completed'', Some w1), s2)))))"

section \<open>Operations, runs and the notions the properties speak of\<close>

datatype operation =
    CreateWallet string
  | LinkPayPal string string
  | Deposit string rat
  | RequestWithdrawal env nat string rat
  | UpdateWithdrawalStatuses env
  | ForceCheckWithdrawal env nat

fun exec :: "operation \<Rightarrow> state \<Rightarrow> state" where
  "exec (CreateWallet c) s = snd (createWallet c s)"
| "exec (LinkPayPal c email) s = snd (linkPayPal c email s)"
| "exec (Deposit c amt) s = deposit c amt s"
| "exec (RequestWithdrawal cl now c amt) s = snd (requestWithdrawal cl now c amt s)"
| "exec (UpdateWithdrawalStatuses cl) s = updateWithdrawalStatuses cl s"
| "exec (ForceCheckWithdrawal cl i) s = snd (forceCheckWithdrawal cl i s)"

fun run :: "operation list \<Rightarrow> state \<Rightarrow> state" where
  "run [] s = s"
| "run (op # ops) s = run ops (exec op s)"

definition initial_state :: state where
  "initial_state = \<lparr>wallets = [], withdrawals = [], calls = [], console_error = []\<rparr>"

text \<open>What an operation deposits into the wallet of creator \<open>c\<close>, and the total over a run.\<close>

fun credited :: "string \<Rightarrow> operation \<Rightarrow> state \<Rightarrow> rat" where
  "credited c (Deposit c' amt) s = (if c' = c \<and> findWallet c s \<noteq> None then amt else 0)"
| "credited c other s = 0"

fun deposits :: "string \<Rightarrow> operation list \<Rightarrow> state \<Rightarrow> rat" where
  "deposits c [] s = 0"
| "deposits c (op # ops) s = credited c op s + deposits c ops (exec op s)"

text \<open>The amounts of the withdrawals of creator \<open>c\<close> that are PENDING, PROCESSING or COMPLETED.\<close>

definition withdrawn :: "string \<Rightarrow> state \<Rightarrow> rat" where
  "withdrawn c s =
     sum_list (map amount
       (filter (\<lambda>w. wd_creatorId w = c \<and> status w \<in> {PENDING, PROCESSING, COMPLETED})
          (withdrawals s)))"

text \<open>The primary key of the withdrawal table: every row carries its own id.\<close>

definition wf_ids :: "state \<Rightarrow> bool" where
  "wf_ids s = (map wd_id (withdrawals s) = [0..<length (withdrawals s)])"


text \<open>
  The item of a batch that the reconciliation is said to select: the one whose id is the
  stored item id, or the only item when no item id is stored.
\<close>

definition select_item :: "withdrawal \<Rightarrow> payout_item list \<Rightarrow> payout_item option" where
  "select_item wdr its =
     (if truthy (paypalPayoutItemId wdr)
        then List.find (\<lambda>it. payout_item_id it = paypalPayoutItemId wdr) its
      else (case its of [it] \<Rightarrow> Some it | _ \<Rightarrow> None))"

text \<open>
  What the lower-case conversion of the runtime does to the four status words that
  \<open>normalizeTransactionStatus\<close> returns as literals.
\<close>

definition lowers_status_words :: "env \<Rightarrow> bool" where
  "lowers_status_words cl =
     (toLowerCase cl ''SUCCESS'' = ''success'' \<and> toLowerCase cl ''FAILED'' = ''failed''
      \<and> toLowerCase cl ''PENDING'' = ''pending'' \<and> toLowerCase cl ''UNKNOWN'' = ''unknown'')"

section \<open>Relations used in the proofs\<close>

text \<open>What one settlement does to the two tables.\<close>

definition ledger_step :: "withdrawal \<Rightarrow> state \<Rightarrow> withdrawal \<Rightarrow> state \<Rightarrow> bool" where
  "ledger_step wdr s w1 s' =
     ((w1 = wdr \<and> wallets s' = wallets s \<and> withdrawals s' = withdrawals s)
     \<or> (w1 = wdr\<lparr>status := COMPLETED\<rparr> \<and> wallets s' = wallets s
          \<and> withdrawals s' = withdrawals (saveWithdrawal w1 s))
     \<or> (\<exists>reason. w1 = wdr\<lparr>status := FAILED, failureReason := Some reason\<rparr>
          \<and> wallets s' = wallets (refundToWallet wdr s)
          \<and> withdrawals s' = withdrawals (saveWithdrawal w1 s)))"

text \<open>A row is kept: it is the same, or a PROCESSING row that has been settled.\<close>

definition row_kept :: "withdrawal \<Rightarrow> withdrawal \<Rightarrow> bool" where
  "row_kept a b =
     (b = a \<or> (status a = PROCESSING \<and> status b \<in> {COMPLETED, FAILED} \<and> wd_id b = wd_id a
               \<and> wd_creatorId b = wd_creatorId a \<and> amount b = amount a))"

text \<open>Between two states no row is added and every row is kept.\<close>

definition ledger_rel :: "state \<Rightarrow> state \<Rightarrow> bool" where
  "ledger_rel s s' =
     (length (withdrawals s') = length (withdrawals s)
      \<and> (\<forall>j < length (withdrawals s). row_kept (withdrawals s ! j) (withdrawals s' ! j)))"

section \<open>Examples\<close>

text \<open>The scenario of the specification: a wallet holding 100, a withdrawal of 20.\<close>

definition alice :: wallet where
  "alice = \<lparr>creatorId = ''alice'', balance = 100,
             paypalEmail = Some ''alice@example.com'', paypalVerified = True\<rparr>"

definition funded_state :: state where
  "funded_state = \<lparr>wallets = [alice], withdrawals = [], calls = [], console_error = []\<rparr>"

definition sent_withdrawal :: withdrawal where
  "sent_withdrawal =
     \<lparr>wd_id = 0, wd_creatorId = ''alice'', amount = 20, status = PROCESSING,
      wd_paypalEmail = Some ''alice@example.com'', createdAt = 7,
      paypalBatchId = Some ''B1'', paypalPayoutItemId = Some ''I1'', failureReason = None\<rparr>"

definition processing_state :: state where
  "processing_state =
     \<lparr>wallets = [alice\<lparr>balance := 80\<rparr>], withdrawals = [sent_withdrawal],
      calls = [PayoutsPostRequest ''alice@example.com'' 20 ''USD''], console_error = []\<rparr>"

text \<open>The environments of the examples convert case as on ASCII text.\<close>

definition ascii_env :: "(nat \<Rightarrow> request \<Rightarrow> js_error + response) \<Rightarrow> env" where
  "ascii_env f =
     \<lparr>client = f, toLowerCase = ascii_toLowerCase, toUpperCase = ascii_toUpperCase\<rparr>"

definition offline_client :: env where
  "offline_client =
     ascii_env
       (\<lambda>n req. Inl \<lparr>statusCode = Some 503, error_message = Some ''Service Unavailable''\<rparr>)"

definition batch_response :: "string \<Rightarrow> (string \<times> string) list \<Rightarrow> response" where
  "batch_response bid its =
     \<lparr>result = Some
        \<lparr>payout_item_id = None, transaction_status = None, errors = None,
         batch_header = Some \<lparr>payout_batch_id = Some bid, batch_status = Some ''PROCESSING''\<rparr>,
         items = Some (map (\<lambda>(i, st). \<lparr>payout_item_id = Some i, transaction_status = Some st,
                                         errors = None\<rparr>) its),
         payout_item_detail = None\<rparr>\<rparr>"

definition item_response :: "string \<Rightarrow> string \<Rightarrow> response" where
  "item_response iid st =
     \<lparr>result = Some
        \<lparr>payout_item_id = Some iid, transaction_status = Some st, errors = None,
         batch_header = None, items = None, payout_item_detail = None\<rparr>\<rparr>"

text \<open>
  A provider that accepts every payout as batch B1 with the single item I1, reports the
  items \<open>its\<close> for every batch and the status \<open>ist\<close> for every item.
\<close>

definition provider :: "(string \<times> string) list \<Rightarrow> string \<Rightarrow> env" where
  "provider its ist =
     ascii_env
       (\<lambda>n req. case req of
          PayoutsPostRequest e a cur \<Rightarrow> Inr (batch_response ''B1'' [(''I1'', ''PENDING'')])
        | PayoutsGetRequest bid \<Rightarrow> Inr (batch_response bid its)
        | PayoutsItemGetRequest iid \<Rightarrow> Inr (item_response iid ist))"

definition item_success_client :: env where
  "item_success_client = provider [(''I1'', ''PENDING'')] ''SUCCESS''"

definition pending_item :: payout_item where
  "pending_item = \<lparr>payout_item_id = Some ''I1'', transaction_status = Some ''PENDING'',
                    errors = None\<rparr>"

definition settled_state :: state where
  "settled_state = processing_state\<lparr>withdrawals := [sent_withdrawal\<lparr>status := COMPLETED\<rparr>]\<rparr>"

definition orphan_state :: state where
  "orphan_state = processing_state\<lparr>wallets := []\<rparr>"

definition second_withdrawal :: withdrawal where
  "second_withdrawal =
     \<lparr>wd_id = 1, wd_creatorId = ''alice'', amount = 30, status = PROCESSING,
      wd_paypalEmail = Some ''alice@example.com'', createdAt = 8,
      paypalBatchId = Some ''B2'', paypalPayoutItemId = Some ''I2'', failureReason = None\<rparr>"

definition two_state :: state where
  "two_state =
     \<lparr>wallets = [alice\<lparr>balance := 50\<rparr>], withdrawals = [sent_withdrawal, second_withdrawal],
      calls = [], console_error = []\<rparr>"

text \<open>A provider that fails on batch B1 and reports the item I2 of any other batch as paid.\<close>

definition flaky_client :: env where
  "flaky_client =
     ascii_env
       (\<lambda>n req. case req of
          PayoutsGetRequest bid \<Rightarrow>
            if bid = ''B1''
              then Inl \<lparr>statusCode = Some 503, error_message = Some ''Service Unavailable''\<rparr>
            else Inr (batch_response bid [(''I2'', ''SUCCESS'')])
        | PayoutsPostRequest e a cur \<Rightarrow>
            Inl \<lparr>statusCode = Some 503, error_message = Some ''Service Unavailable''\<rparr>
        | PayoutsItemGetRequest iid \<Rightarrow>
            Inl \<lparr>statusCode = None, error_message = None\<rparr>)"

text \<open>
  The doubles written 13.1 and 5.03, and a run in which a creator with a balance of 13.1
  asks for 5.03 while the provider is down.
\<close>

definition double_13_1 :: rat where
  "double_13_1 = round64 (131 / 10)"

definition double_5_03 :: rat where
  "double_5_03 = round64 (503 / 100)"

definition rounding_state :: state where
  "rounding_state =
     \<lparr>wallets = [alice\<lparr>balance := double_13_1\<rparr>], withdrawals = [], calls = [],
      console_error = []\<rparr>"

definition rounding_scenario :: "operation list" where
  "rounding_scenario =
     [CreateWallet ''alice'', LinkPayPal ''alice'' ''alice@example.com'',
      Deposit ''alice'' double_13_1,
      RequestWithdrawal offline_client 7 ''alice'' double_5_03]"

section \<open>Evaluating the examples\<close>

lemmas str_eval = ascii_toLowerCase_def ascii_toLowerCase_char_def ascii_toUpperCase_def
  ascii_toUpperCase_char_def char_of_def bit_0

lemmas example_defs = alice_def funded_state_def sent_withdrawal_def processing_state_def
  ascii_env_def offline_client_def batch_response_def item_response_def provider_def

lemmas more_example_defs = settled_state_def orphan_state_def second_withdrawal_def two_state_def
  flaky_client_def item_success_client_def pending_item_def

lemmas service_defs = execute_def sendPayout_def sendPayout_catch_def invalid_structure_def
  normalizeTransactionStatus_def getPayoutStatus_catch_def normalize_item_def
  getPayoutStatus_def getPayoutItemStatus_def findWallet_def saveWallet_def findWithdrawal_def
  insertWithdrawal_def saveWithdrawal_def createWallet_def linkPayPal_def deposit_def
  requestWithdrawal_validate_def requestWithdrawal_debit_def requestWithdrawal_submit_def
  requestWithdrawal_def refundToWallet_def errors_message_def updateWithdrawalFromItem_def
  checkItemStatus_def checkWithdrawal_def processWithdrawal_def processingWithdrawals_def
  updateWithdrawalStatuses_def forceCheckWithdrawal_def Let_def

lemma string_of_nat_503: "string_of_nat 503 = ''503''"
  by (simp add: string_of_nat.simps char_of_def bit_0)

lemma ascii_lowers_status_words: "lowers_status_words (ascii_env f)"
  by (simp add: lowers_status_words_def ascii_env_def str_eval)

subsection \<open>Arithmetic on doubles\<close>

lemma floor_numeral_divide: "\<lfloor>(numeral a :: rat) / numeral b\<rfloor> = numeral a div numeral b"
  using floor_divide_of_int_eq [of "numeral a" "numeral b", where ?'a = rat] by simp

lemmas double_eval = js_add_def js_sub_def round64_def round_magnitude_def exponent_of_def
  pow2_def roundTiesToEven_def Let_def floor_numeral_divide

text \<open>The amounts of the scenario of the specification are doubles, and so are their sums.\<close>

lemma js_whole_amounts:
  "js_add 0 100 = 100" "js_sub 100 20 = 80" "js_add 80 20 = 100" "js_add 50 20 = 70"
  "js_add 50 30 = 80"
  by (simp_all add: double_eval)

text \<open>13.1 and 5.03 are not doubles; the literals denote the nearest ones.\<close>

lemma double_13_1_value: "double_13_1 = 7374644389819187 / 562949953421312"
  by (simp add: double_13_1_def double_eval)

lemma double_5_03_value: "double_5_03 = 5663276531418399 / 1125899906842624"
  by (simp add: double_5_03_def double_eval)

lemma js_add_0_13_1: "js_add 0 double_13_1 = double_13_1"
  unfolding double_13_1_value by (simp add: double_eval)

lemma js_sub_13_1_5_03: "js_sub double_13_1 double_5_03 = 1135751531027497 / 140737488355328"
  unfolding double_13_1_value double_5_03_value by (simp add: double_eval)

lemma js_add_back_5_03:
  "js_add (1135751531027497 / 140737488355328) double_5_03 = 1843661097454797 / 140737488355328"
  unfolding double_5_03_value by (simp add: double_eval)

lemma double_13_1_least: "1843661097454797 / 140737488355328 - double_13_1 = 1 / 562949953421312"
  unfolding double_13_1_value by simp

section \<open>Status normalization\<close>

text \<open>
  C4. \<open>normalizeTransactionStatus\<close> is a function of the status alone, whatever the case
  conversions of the runtime are. An absent status gives UNKNOWN; a non-empty status
  whose lower-case form is one of success, completed, claimed gives SUCCESS; one of
  failed, returned, refunded, blocked gives FAILED; one of pending, unclaimed gives
  PENDING; every other non-empty status gives its upper-case form.
\<close>

theorem normalizeTransactionStatus_spec:
  "normalizeTransactionStatus cl None = ''UNKNOWN''
   \<and> (s \<noteq> [] \<and> toLowerCase cl s \<in> {''success'', ''completed'', ''claimed''}
        \<longrightarrow> normalizeTransactionStatus cl (Some s) = ''SUCCESS'')
   \<and> (s \<noteq> [] \<and> toLowerCase cl s \<in> {''failed'', ''returned'', ''refunded'', ''blocked''}
        \<longrightarrow> normalizeTransactionStatus cl (Some s) = ''FAILED'')
   \<and> (s \<noteq> [] \<and> toLowerCase cl s \<in> {''pending'', ''unclaimed''}
        \<longrightarrow> normalizeTransactionStatus cl (Some s) = ''PENDING'')
   \<and> (s \<noteq> [] \<and> toLowerCase cl s \<notin> {''success'', ''completed'', ''claimed'', ''failed'',
           ''returned'', ''refunded'', ''blocked'', ''pending'', ''unclaimed''}
        \<longrightarrow> normalizeTransactionStatus cl (Some s) = toUpperCase cl s)"
  by (auto simp: normalizeTransactionStatus_def Let_def)

theorem normalizeTransactionStatus_spec_witness:
  "normalizeTransactionStatus offline_client (Some ''Completed'') = ''SUCCESS''
   \<and> normalizeTransactionStatus offline_client (Some ''BLOCKED'') = ''FAILED''
   \<and> normalizeTransactionStatus offline_client (Some ''unclaimed'') = ''PENDING''
   \<and> normalizeTransactionStatus offline_client (Some ''weird_status'') = ''WEIRD_STATUS''
   \<and> normalizeTransactionStatus offline_client None = ''UNKNOWN''"
proof -
  have a: "''Completed'' \<noteq> [] \<and> toLowerCase offline_client ''Completed''
             \<in> {''success'', ''completed'', ''claimed''}"
    by (simp add: offline_client_def ascii_env_def str_eval)
  have b: "''BLOCKED'' \<noteq> [] \<and> toLowerCase offline_client ''BLOCKED''
             \<in> {''failed'', ''returned'', ''refunded'', ''blocked''}"
    by (simp add: offline_client_def ascii_env_def str_eval)
  have c: "''unclaimed'' \<noteq> [] \<and> toLowerCase offline_client ''unclaimed''
             \<in> {''pending'', ''unclaimed''}"
    by (simp add: offline_client_def ascii_env_def str_eval)
  have d: "''weird_status'' \<noteq> [] \<and> toLowerCase offline_client ''weird_status''
             \<notin> {''success'', ''completed'', ''claimed'', ''failed'', ''returned'', ''refunded'',
                 ''blocked'', ''pending'', ''unclaimed''}"
    by (simp add: offline_client_def ascii_env_def str_eval)
  have e: "toUpperCase offline_client ''weird_status'' = ''WEIRD_STATUS''"
    by (simp add: offline_client_def ascii_env_def str_eval)
  from normalizeTransactionStatus_spec [of offline_client "''Completed''"] a
       normalizeTransactionStatus_spec [of offline_client "''BLOCKED''"] b
       normalizeTransactionStatus_spec [of offline_client "''unclaimed''"] c
       normalizeTransactionStatus_spec [of offline_client "''weird_status''"] d e
  show ?thesis by presburger
qed

text \<open>
  What \<open>updateWithdrawalFromItem\<close> does with the status words that
  \<open>normalizeTransactionStatus\<close> returns as literals.
\<close>

lemma updateWithdrawalFromItem_SUCCESS:
  assumes "lowers_status_words cl" and "transaction_status item = Some ''SUCCESS''"
  shows "updateWithdrawalFromItem cl wdr item s =
           (wdr\<lparr>status := COMPLETED\<rparr>, saveWithdrawal (wdr\<lparr>status := COMPLETED\<rparr>) s)"
  using assms by (simp add: updateWithdrawalFromItem_def lowers_status_words_def Let_def)

lemma updateWithdrawalFromItem_FAILED:
  assumes "lowers_status_words cl" and "transaction_status item = Some ''FAILED''"
  shows "updateWithdrawalFromItem cl wdr item s =
           (wdr\<lparr>status := FAILED, failureReason :=
                  Some (js_or (errors_message (errors item)) ''PayPal transaction failed'')\<rparr>,
            saveWithdrawal (wdr\<lparr>status := FAILED, failureReason :=
                  Some (js_or (errors_message (errors item)) ''PayPal transaction failed'')\<rparr>)
              (refundToWallet (wdr\<lparr>status := FAILED, failureReason :=
                  Some (js_or (errors_message (errors item)) ''PayPal transaction failed'')\<rparr>) s))"
  using assms by (simp add: updateWithdrawalFromItem_def lowers_status_words_def Let_def)

lemma updateWithdrawalFromItem_other:
  assumes "map_option (toLowerCase cl) (transaction_status item) \<notin>
             {Some ''success'', Some ''completed'', Some ''claimed'', Some ''failed'',
              Some ''returned'', Some ''refunded'', Some ''blocked''}"
  shows "updateWithdrawalFromItem cl wdr item s = (wdr, s)"
proof -
  define st where "st = map_option (toLowerCase cl) (transaction_status item)"
  have "st \<noteq> Some ''success''" "st \<noteq> Some ''completed''" "st \<noteq> Some ''claimed''"
       "st \<noteq> Some ''failed''" "st \<noteq> Some ''returned''" "st \<noteq> Some ''refunded''"
       "st \<noteq> Some ''blocked''"
    using assms unfolding st_def by simp_all
  then show ?thesis
    unfolding updateWithdrawalFromItem_def Let_def st_def [symmetric] by simp
qed

lemma updateWithdrawalFromItem_PENDING:
  assumes "lowers_status_words cl"
      and "transaction_status item = Some ''PENDING'' \<or> transaction_status item = Some ''UNKNOWN''"
  shows "updateWithdrawalFromItem cl wdr item s = (wdr, s)"
  using assms
  by (auto simp: updateWithdrawalFromItem_def lowers_status_words_def Let_def)

section \<open>The repositories and the provider calls\<close>

lemma findWallet_creatorId: "findWallet c s = Some w \<Longrightarrow> creatorId w = c"
  by (auto simp: findWallet_def find_Some_iff)

lemma find_save_wallet_rows:
  "List.find (\<lambda>x. creatorId x = c) (save_wallet_rows w ws) =
     (if creatorId w = c then Some w else List.find (\<lambda>x. creatorId x = c) ws)"
  by (induction ws) auto

lemma findWallet_saveWallet:
  "findWallet c (saveWallet w s) = (if creatorId w = c then Some w else findWallet c s)"
  by (simp add: findWallet_def saveWallet_def find_save_wallet_rows)

lemma save_wallet_rows_same:
  "List.find (\<lambda>x. creatorId x = creatorId w) ws = Some w \<Longrightarrow> save_wallet_rows w ws = ws"
  by (induction ws) (auto split: if_splits)

lemma save_wallet_rows_twice:
  "creatorId w' = creatorId w \<Longrightarrow>
     save_wallet_rows w (save_wallet_rows w' ws) = save_wallet_rows w ws"
  by (induction ws) auto

lemma saveWallet_fields [simp]:
  "withdrawals (saveWallet w s) = withdrawals s"
  "calls (saveWallet w s) = calls s"
  "console_error (saveWallet w s) = console_error s"
  by (simp_all add: saveWallet_def)

lemma saveWithdrawal_fields [simp]:
  "wallets (saveWithdrawal w s) = wallets s"
  "calls (saveWithdrawal w s) = calls s"
  "console_error (saveWithdrawal w s) = console_error s"
  by (simp_all add: saveWithdrawal_def)

lemma saveWithdrawal_row:
  "wd_id w < length (withdrawals s) \<Longrightarrow>
     withdrawals (saveWithdrawal w s) = (withdrawals s)[wd_id w := w]"
  by (simp add: saveWithdrawal_def)

lemma findWallet_cong: "wallets s' = wallets s \<Longrightarrow> findWallet c s' = findWallet c s"
  by (simp add: findWallet_def)

lemma execute_fields [simp]:
  "wallets (snd (execute cl req s)) = wallets s"
  "withdrawals (snd (execute cl req s)) = withdrawals s"
  "console_error (snd (execute cl req s)) = console_error s"
  "calls (snd (execute cl req s)) = calls s @ [req]"
  by (simp_all add: execute_def)

lemma sendPayout_snd: "snd (sendPayout cl e a cur s) = s\<lparr>calls := calls s @ [PayoutsPostRequest e a cur]\<rparr>"
  by (simp add: sendPayout_def execute_def split: sum.splits option.splits)

lemma sendPayout_fst_calls:
  "calls s' = calls s \<Longrightarrow> fst (sendPayout cl e a cur s') = fst (sendPayout cl e a cur s)"
  by (simp add: sendPayout_def execute_def split: sum.splits option.splits)

lemma getPayoutStatus_snd:
  "snd (getPayoutStatus cl bid s) = s\<lparr>calls := calls s @ [PayoutsGetRequest bid]\<rparr>"
  by (simp add: getPayoutStatus_def execute_def Let_def split: sum.splits)

lemma getPayoutItemStatus_snd:
  "snd (getPayoutItemStatus cl iid s) = s\<lparr>calls := calls s @ [PayoutsItemGetRequest iid]\<rparr>"
  by (simp add: getPayoutItemStatus_def execute_def split: sum.splits)

lemma getPayoutItemStatus_ledger:
  "wallets (snd (getPayoutItemStatus cl iid s)) = wallets s"
  "withdrawals (snd (getPayoutItemStatus cl iid s)) = withdrawals s"
  by (simp_all add: getPayoutItemStatus_snd)

lemma getPayoutStatus_ledger:
  "wallets (snd (getPayoutStatus cl bid s)) = wallets s"
  "withdrawals (snd (getPayoutStatus cl bid s)) = withdrawals s"
  by (simp_all add: getPayoutStatus_snd)

lemma sendPayout_catch_nonempty: "exception_message (sendPayout_catch e) \<noteq> []"
  by (simp add: sendPayout_catch_def split: option.splits nat.splits)

lemma sendPayout_error_nonempty:
  "fst (sendPayout cl e a cur s) = Inl err \<Longrightarrow> exception_message err \<noteq> []"
  by (auto simp: sendPayout_def execute_def sendPayout_catch_nonempty
           split: sum.splits option.splits)

lemma refundToWallet_fields [simp]:
  "withdrawals (refundToWallet w s) = withdrawals s"
  "calls (refundToWallet w s) = calls s"
  "console_error (refundToWallet w s) = console_error s"
  by (simp_all add: refundToWallet_def split: option.splits)

lemma findWallet_refund_None:
  assumes "findWallet c s = None"
  shows "findWallet c (refundToWallet w s) = None"
proof (cases "findWallet (wd_creatorId w) s")
  case None
  then show ?thesis using assms by (simp add: refundToWallet_def)
next
  case (Some x)
  then have "creatorId x = wd_creatorId w" by (rule findWallet_creatorId)
  moreover have "wd_creatorId w \<noteq> c" using Some assms by auto
  ultimately show ?thesis using Some assms
    by (simp add: refundToWallet_def findWallet_saveWallet)
qed

lemma findWallet_refund:
  "findWallet c (refundToWallet wdr s) =
     (case findWallet c s of
        None \<Rightarrow> None
      | Some w \<Rightarrow> if wd_creatorId wdr = c then Some (w\<lparr>balance := js_add (balance w) (amount wdr)\<rparr>)
                  else Some w)"
proof (cases "findWallet (wd_creatorId wdr) s")
  case None
  then show ?thesis by (auto simp: refundToWallet_def split: option.splits)
next
  case (Some x)
  then have x: "creatorId x = wd_creatorId wdr" by (rule findWallet_creatorId)
  show ?thesis
    using Some x by (auto simp: refundToWallet_def findWallet_saveWallet split: option.splits)
qed

lemma refundToWallet_wallets_cong:
  "wallets s' = wallets s \<Longrightarrow> wd_creatorId w' = wd_creatorId w \<Longrightarrow> amount w' = amount w \<Longrightarrow>
     wallets (refundToWallet w' s') = wallets (refundToWallet w s)"
  by (simp add: refundToWallet_def findWallet_def saveWallet_def split: option.splits)

lemma saveWithdrawal_withdrawals_cong:
  "withdrawals s' = withdrawals s \<Longrightarrow>
     withdrawals (saveWithdrawal w s') = withdrawals (saveWithdrawal w s)"
  by (simp add: saveWithdrawal_def)

section \<open>requestWithdrawal\<close>

text \<open>
  C3. A request with an amount that is not positive or below 5, for a creator without a
  wallet, with a wallet that has no payout email, or for more than the balance fails with
  one of the five validation messages and leaves the whole state as it was: no balance
  changes, no withdrawal is created, the provider is not called.
\<close>

theorem requestWithdrawal_validation:
  assumes "amt \<le> 0 \<or> amt < 5 \<or> findWallet c s = None
           \<or> (\<exists>w. findWallet c s = Some w \<and> (\<not> truthy (paypalEmail w) \<or> amt > balance w))"
  shows "\<exists>msg \<in> {''Invalid withdrawal amount'', ''Minimum withdrawal amount is $5'',
                   ''Wallet not found'', ''Please link your PayPal account first'',
                   ''Insufficient balance''}.
           requestWithdrawal cl now c amt s = (Inl (BadRequestException msg), s)"
  using assms
  by (auto simp: requestWithdrawal_def requestWithdrawal_validate_def split: option.splits)

theorem requestWithdrawal_validation_witness:
  "(3::rat) < 5
   \<and> (\<exists>msg \<in> {''Invalid withdrawal amount'', ''Minimum withdrawal amount is $5'',
                   ''Wallet not found'', ''Please link your PayPal account first'',
                   ''Insufficient balance''}.
           requestWithdrawal offline_client 7 ''alice'' 3 funded_state
             = (Inl (BadRequestException msg), funded_state))"
proof -
  have h: "(3::rat) \<le> 0 \<or> (3::rat) < 5 \<or> findWallet ''alice'' funded_state = None
           \<or> (\<exists>w. findWallet ''alice'' funded_state = Some w
                 \<and> (\<not> truthy (paypalEmail w) \<or> 3 > balance w))"
    by simp
  from requestWithdrawal_validation [OF h] show ?thesis by simp
qed

lemma requestWithdrawal_validate_Inr:
  "requestWithdrawal_validate c amt s = Inr w \<Longrightarrow>
     findWallet c s = Some w \<and> 5 \<le> amt \<and> amt \<le> balance w \<and> truthy (paypalEmail w)"
  by (auto simp: requestWithdrawal_validate_def split: if_splits option.splits)

lemma requestWithdrawal_debit_eq:
  "requestWithdrawal_debit now w c amt s =
     (w\<lparr>balance := js_sub (balance w) amt\<rparr>,
      \<lparr>wd_id = length (withdrawals s), wd_creatorId = c, amount = amt,
        status = PENDING, wd_paypalEmail = paypalEmail w, createdAt = now,
        paypalBatchId = None, paypalPayoutItemId = None, failureReason = None\<rparr>,
      s\<lparr>wallets := save_wallet_rows (w\<lparr>balance := js_sub (balance w) amt\<rparr>) (wallets s),
        withdrawals := withdrawals s @
          [\<lparr>wd_id = length (withdrawals s), wd_creatorId = c, amount = amt,
            status = PENDING, wd_paypalEmail = paypalEmail w, createdAt = now,
            paypalBatchId = None, paypalPayoutItemId = None, failureReason = None\<rparr>]\<rparr>)"
  by (simp add: requestWithdrawal_debit_def insertWithdrawal_def saveWallet_def Let_def)

lemma requestWithdrawal_failed:
  assumes "requestWithdrawal_validate c amt s = Inr w"
      and "fst (sendPayout cl (template (paypalEmail w)) amt ''USD'' s) = Inl err"
  shows "requestWithdrawal cl now c amt s =
           (Inl (BadRequestException (''Withdrawal failed: '' @ exception_message err)),
            s\<lparr>wallets := save_wallet_rows
                   (w\<lparr>balance := js_add (js_sub (balance w) amt) amt\<rparr>) (wallets s),
               withdrawals := withdrawals s @
                 [\<lparr>wd_id = length (withdrawals s), wd_creatorId = c, amount = amt,
                   status = FAILED, wd_paypalEmail = paypalEmail w, createdAt = now,
                   paypalBatchId = None, paypalPayoutItemId = None,
                   failureReason = Some (exception_message err)\<rparr>],
               calls := calls s @ [PayoutsPostRequest (template (paypalEmail w)) amt ''USD'']\<rparr>)"
proof -
  define w1 where "w1 = w\<lparr>balance := js_sub (balance w) amt\<rparr>"
  define w2 where "w2 = w\<lparr>balance := js_add (js_sub (balance w) amt) amt\<rparr>"
  define saved where "saved = \<lparr>wd_id = length (withdrawals s), wd_creatorId = c, amount = amt,
                   status = PENDING, wd_paypalEmail = paypalEmail w, createdAt = now,
                   paypalBatchId = None, paypalPayoutItemId = None,
                   failureReason = None\<rparr>"
  define s1 where "s1 = s\<lparr>wallets := save_wallet_rows w1 (wallets s),
                          withdrawals := withdrawals s @ [saved]\<rparr>"
  have debit: "requestWithdrawal_debit now w c amt s = (w1, saved, s1)"
    by (simp add: requestWithdrawal_debit_def insertWithdrawal_def saveWallet_def Let_def
        w1_def saved_def s1_def)
  have sp: "fst (sendPayout cl (template (paypalEmail w1)) amt ''USD'' s1) = Inl err"
    using assms(2) sendPayout_fst_calls[of s1 s] by (simp add: s1_def w1_def)
  define s2 where "s2 = snd (sendPayout cl (template (paypalEmail w1)) amt ''USD'' s1)"
  have sp2: "sendPayout cl (template (paypalEmail w1)) amt ''USD'' s1 = (Inl err, s2)"
    using sp by (simp add: s2_def prod_eq_iff)
  have s2: "s2 = s1\<lparr>calls := calls s @ [PayoutsPostRequest (template (paypalEmail w)) amt ''USD'']\<rparr>"
    by (simp add: s2_def sendPayout_snd s1_def w1_def)
  have credited: "w1\<lparr>balance := js_add (balance w1) amt\<rparr> = w2" by (simp add: w1_def w2_def)
  have rows: "save_wallet_rows w2 (save_wallet_rows w1 (wallets s)) = save_wallet_rows w2 (wallets s)"
    by (rule save_wallet_rows_twice) (simp add: w1_def w2_def)
  have step1: "requestWithdrawal cl now c amt s = requestWithdrawal_submit cl w1 saved amt s1"
    by (simp add: requestWithdrawal_def assms(1) debit)
  have step2: "requestWithdrawal_submit cl w1 saved amt s1 =
           (Inl (BadRequestException (''Withdrawal failed: '' @ exception_message err)),
            saveWithdrawal (saved\<lparr>status := FAILED,
                   failureReason := Some (exception_message err)\<rparr>) (saveWallet w2 s2))"
    by (simp add: requestWithdrawal_submit_def sp2 credited)
  have step3: "saveWithdrawal (saved\<lparr>status := FAILED,
                   failureReason := Some (exception_message err)\<rparr>) (saveWallet w2 s2) =
            s\<lparr>wallets := save_wallet_rows w2 (wallets s),
               withdrawals := withdrawals s @ [saved\<lparr>status := FAILED,
                   failureReason := Some (exception_message err)\<rparr>],
               calls := calls s @ [PayoutsPostRequest (template (paypalEmail w)) amt ''USD'']\<rparr>"
    using rows by (simp add: s2 s1_def saveWallet_def saveWithdrawal_def saved_def)
  have "requestWithdrawal cl now c amt s =
           (Inl (BadRequestException (''Withdrawal failed: '' @ exception_message err)),
            s\<lparr>wallets := save_wallet_rows w2 (wallets s),
               withdrawals := withdrawals s @ [saved\<lparr>status := FAILED,
                   failureReason := Some (exception_message err)\<rparr>],
               calls := calls s @ [PayoutsPostRequest (template (paypalEmail w)) amt ''USD'']\<rparr>)"
    by (simp only: step1 step2 step3)
  then show ?thesis by (simp add: saved_def w2_def)
qed

text \<open>
  The failure of the payout leaves a FAILED withdrawal with a non-empty reason and the
  error reaches the caller; the balance is what the two roundings make of it.
\<close>

lemma requestWithdrawal_failed_balance:
  assumes "requestWithdrawal_validate c amt s = Inr w"
      and "fst (sendPayout cl (template (paypalEmail w)) amt ''USD'' s) = Inl err"
  shows "exception_message err \<noteq> []
         \<and> findWallet c (snd (requestWithdrawal cl now c amt s))
             = Some (w\<lparr>balance := js_add (js_sub (balance w) amt) amt\<rparr>)"
proof -
  have ne: "exception_message err \<noteq> []"
    using assms(2) by (rule sendPayout_error_nonempty)
  have fw: "findWallet c s = Some w"
    using assms(1) by (simp add: requestWithdrawal_validate_Inr)
  then have cw: "creatorId w = c" by (rule findWallet_creatorId)
  have "findWallet c (snd (requestWithdrawal cl now c amt s))
          = Some (w\<lparr>balance := js_add (js_sub (balance w) amt) amt\<rparr>)"
    using cw by (simp add: requestWithdrawal_failed [OF assms] findWallet_def
        find_save_wallet_rows)
  with ne show ?thesis by simp
qed

lemma rounding_amounts:
  "\<not> double_5_03 \<le> 0" "\<not> double_5_03 < 5" "\<not> double_13_1 < double_5_03"
  unfolding double_13_1_value double_5_03_value by simp_all

text \<open>
  C2, at the failing input. The balance is the double 13.1, the amount the double 5.03,
  and the provider is down. The request passes validation, the payout fails, the
  withdrawal is saved FAILED with the message of the failure and the error reaches the
  caller; but the balance after the call is the double above 13.1, not 13.1: the debit
  \<open>wallet.balance -= amount\<close> rounds, the credit \<open>wallet.balance += amount\<close> rounds
  again, and the two do not cancel.
\<close>

theorem requestWithdrawal_failure_not_reversed:
  "requestWithdrawal_validate ''alice'' double_5_03 rounding_state
     = Inr (alice\<lparr>balance := double_13_1\<rparr>)
   \<and> requestWithdrawal offline_client 7 ''alice'' double_5_03 rounding_state =
       (Inl (BadRequestException
               ''Withdrawal failed: PayPal payout failed (503): Service Unavailable''),
        \<lparr>wallets = [alice\<lparr>balance := 1843661097454797 / 140737488355328\<rparr>],
         withdrawals =
            [\<lparr>wd_id = 0, wd_creatorId = ''alice'', amount = double_5_03, status = FAILED,
              wd_paypalEmail = Some ''alice@example.com'', createdAt = 7,
              paypalBatchId = None, paypalPayoutItemId = None,
              failureReason = Some ''PayPal payout failed (503): Service Unavailable''\<rparr>],
         calls = [PayoutsPostRequest ''alice@example.com'' double_5_03 ''USD''],
         console_error = []\<rparr>)
   \<and> 1843661097454797 / 140737488355328 - double_13_1 = 1 / 562949953421312"
proof -
  have h1: "requestWithdrawal_validate ''alice'' double_5_03 rounding_state
              = Inr (alice\<lparr>balance := double_13_1\<rparr>)"
    by (simp add: requestWithdrawal_validate_def findWallet_def rounding_state_def alice_def
        rounding_amounts)
  have h2: "fst (sendPayout offline_client
                   (template (paypalEmail (alice\<lparr>balance := double_13_1\<rparr>))) double_5_03 ''USD''
                   rounding_state)
              = Inl (BadRequestException ''PayPal payout failed (503): Service Unavailable'')"
    by (simp add: sendPayout_def execute_def offline_client_def ascii_env_def
        sendPayout_catch_def string_of_nat_503 alice_def)
  have a: "requestWithdrawal offline_client 7 ''alice'' double_5_03 rounding_state =
       (Inl (BadRequestException
               ''Withdrawal failed: PayPal payout failed (503): Service Unavailable''),
        \<lparr>wallets = [alice\<lparr>balance := 1843661097454797 / 140737488355328\<rparr>],
         withdrawals =
            [\<lparr>wd_id = 0, wd_creatorId = ''alice'', amount = double_5_03, status = FAILED,
              wd_paypalEmail = Some ''alice@example.com'', createdAt = 7,
              paypalBatchId = None, paypalPayoutItemId = None,
              failureReason = Some ''PayPal payout failed (503): Service Unavailable''\<rparr>],
         calls = [PayoutsPostRequest ''alice@example.com'' double_5_03 ''USD''],
         console_error = []\<rparr>)"
    unfolding requestWithdrawal_failed [OF h1 h2]
    by (simp add: rounding_state_def alice_def js_sub_13_1_5_03 js_add_back_5_03)
  from h1 a double_13_1_least show ?thesis by simp
qed

lemma requestWithdrawal_sent:
  assumes "requestWithdrawal_validate c amt s = Inr w"
      and "fst (sendPayout cl (template (paypalEmail w)) amt ''USD'' s) = Inr pr"
  shows "snd (requestWithdrawal cl now c amt s) =
            s\<lparr>wallets := save_wallet_rows (w\<lparr>balance := js_sub (balance w) amt\<rparr>) (wallets s),
              withdrawals := withdrawals s @
                 [\<lparr>wd_id = length (withdrawals s), wd_creatorId = c, amount = amt,
                   status = PROCESSING, wd_paypalEmail = paypalEmail w, createdAt = now,
                   paypalBatchId = sent_batchId pr,
                   paypalPayoutItemId = sent_payoutItemId pr, failureReason = None\<rparr>],
               calls := calls s @ [PayoutsPostRequest (template (paypalEmail w)) amt ''USD'']\<rparr>"
proof -
  define w1 where "w1 = w\<lparr>balance := js_sub (balance w) amt\<rparr>"
  define saved where "saved = \<lparr>wd_id = length (withdrawals s), wd_creatorId = c, amount = amt,
                   status = PENDING, wd_paypalEmail = paypalEmail w, createdAt = now,
                   paypalBatchId = None, paypalPayoutItemId = None,
                   failureReason = None\<rparr>"
  define s1 where "s1 = s\<lparr>wallets := save_wallet_rows w1 (wallets s),
                          withdrawals := withdrawals s @ [saved]\<rparr>"
  have debit: "requestWithdrawal_debit now w c amt s = (w1, saved, s1)"
    by (simp add: requestWithdrawal_debit_eq w1_def saved_def s1_def)
  have sp: "fst (sendPayout cl (template (paypalEmail w1)) amt ''USD'' s1) = Inr pr"
    using assms(2) sendPayout_fst_calls[of s1 s] by (simp add: s1_def w1_def)
  define s2 where "s2 = snd (sendPayout cl (template (paypalEmail w1)) amt ''USD'' s1)"
  have sp2: "sendPayout cl (template (paypalEmail w1)) amt ''USD'' s1 = (Inr pr, s2)"
    using sp by (simp add: s2_def prod_eq_iff)
  have s2: "s2 = s1\<lparr>calls := calls s @ [PayoutsPostRequest (template (paypalEmail w)) amt ''USD'']\<rparr>"
    by (simp add: s2_def sendPayout_snd s1_def w1_def)
  have step1: "requestWithdrawal cl now c amt s = requestWithdrawal_submit cl w1 saved amt s1"
    by (simp add: requestWithdrawal_def assms(1) debit)
  have step2: "snd (requestWithdrawal_submit cl w1 saved amt s1) =
            saveWithdrawal (saved\<lparr>paypalBatchId := sent_batchId pr,
                         paypalPayoutItemId := sent_payoutItemId pr,
                         status := PROCESSING\<rparr>) s2"
    by (simp add: requestWithdrawal_submit_def sp2 Let_def)
  have step3: "saveWithdrawal (saved\<lparr>paypalBatchId := sent_batchId pr,
                         paypalPayoutItemId := sent_payoutItemId pr,
                         status := PROCESSING\<rparr>) s2 =
            s\<lparr>wallets := save_wallet_rows w1 (wallets s),
              withdrawals := withdrawals s @ [saved\<lparr>paypalBatchId := sent_batchId pr,
                         paypalPayoutItemId := sent_payoutItemId pr,
                         status := PROCESSING\<rparr>],
               calls := calls s @ [PayoutsPostRequest (template (paypalEmail w)) amt ''USD'']\<rparr>"
    by (simp add: s2 s1_def saveWithdrawal_def saved_def)
  show ?thesis
    unfolding step1 step2 step3 by (simp add: saved_def w1_def)
qed

text \<open>The three ways a request can end.\<close>

lemma requestWithdrawal_cases:
  obtains (rejected) "snd (requestWithdrawal cl now c amt s) = s"
  | (failed) w reason where "findWallet c s = Some w"
      "withdrawals (snd (requestWithdrawal cl now c amt s)) = withdrawals s @
         [\<lparr>wd_id = length (withdrawals s), wd_creatorId = c, amount = amt,
           status = FAILED, wd_paypalEmail = paypalEmail w, createdAt = now,
           paypalBatchId = None, paypalPayoutItemId = None, failureReason = Some reason\<rparr>]"
  | (sent) w and pr :: payout_sent where "findWallet c s = Some w"
      "withdrawals (snd (requestWithdrawal cl now c amt s)) = withdrawals s @
         [\<lparr>wd_id = length (withdrawals s), wd_creatorId = c, amount = amt,
           status = PROCESSING, wd_paypalEmail = paypalEmail w, createdAt = now,
           paypalBatchId = sent_batchId pr, paypalPayoutItemId = sent_payoutItemId pr,
           failureReason = None\<rparr>]"
proof (cases "requestWithdrawal_validate c amt s")
  case (Inl e)
  then have "snd (requestWithdrawal cl now c amt s) = s"
    by (simp add: requestWithdrawal_def)
  then show ?thesis by (rule rejected)
next
  case (Inr w)
  then have fw: "findWallet c s = Some w" by (simp add: requestWithdrawal_validate_Inr)
  show ?thesis
  proof (cases "fst (sendPayout cl (template (paypalEmail w)) amt ''USD'' s)")
    case (Inl err)
    show ?thesis
      using fw by (rule failed) (simp_all add: requestWithdrawal_failed[OF Inr Inl])
  next
    case r: (Inr pr)
    show ?thesis
      using fw by (rule sent[where pr = pr]) (simp_all add: requestWithdrawal_sent[OF Inr r])
  qed
qed


section \<open>forceCheckWithdrawal: the guards\<close>

text \<open>
  C8. \<open>forceCheckWithdrawal\<close> fails with "Withdrawal not found" when there is no such
  withdrawal; returns the message "Withdrawal is not in processing status" when its status
  is not PROCESSING; fails with "No PayPal batch ID found" when it is PROCESSING without a
  batch id. In all three cases the state is returned as it was: nothing is written and
  the provider is not called.
\<close>

theorem forceCheckWithdrawal_guards:
  "(findWithdrawal i s = None \<longrightarrow>
      forceCheckWithdrawal cl i s = (Inl (BadRequestException ''Withdrawal not found''), s))
   \<and> (findWithdrawal i s = Some wdr \<and> status wdr \<noteq> PROCESSING \<longrightarrow>
        forceCheckWithdrawal cl i s = (Inr (''Withdrawal is not in processing status'', None), s))
   \<and> (findWithdrawal i s = Some wdr \<and> status wdr = PROCESSING \<and> \<not> truthy (paypalBatchId wdr) \<longrightarrow>
        forceCheckWithdrawal cl i s = (Inl (BadRequestException ''No PayPal batch ID found''), s))"
  by (simp add: forceCheckWithdrawal_def)

theorem forceCheckWithdrawal_guards_witness:
  "findWithdrawal 5 processing_state = None
   \<and> forceCheckWithdrawal offline_client 5 processing_state
       = (Inl (BadRequestException ''Withdrawal not found''), processing_state)
   \<and> forceCheckWithdrawal offline_client 0
        (processing_state\<lparr>withdrawals := [sent_withdrawal\<lparr>status := COMPLETED\<rparr>]\<rparr>)
       = (Inr (''Withdrawal is not in processing status'', None),
          processing_state\<lparr>withdrawals := [sent_withdrawal\<lparr>status := COMPLETED\<rparr>]\<rparr>)
   \<and> forceCheckWithdrawal offline_client 0
        (processing_state\<lparr>withdrawals := [sent_withdrawal\<lparr>paypalBatchId := None\<rparr>]\<rparr>)
       = (Inl (BadRequestException ''No PayPal batch ID found''),
          processing_state\<lparr>withdrawals := [sent_withdrawal\<lparr>paypalBatchId := None\<rparr>]\<rparr>)"
proof -
  have a: "findWithdrawal 5 processing_state = None"
    by (simp add: findWithdrawal_def processing_state_def)
  have b: "findWithdrawal 0 (processing_state\<lparr>withdrawals := [sent_withdrawal\<lparr>status := COMPLETED\<rparr>]\<rparr>)
             = Some (sent_withdrawal\<lparr>status := COMPLETED\<rparr>)
           \<and> status (sent_withdrawal\<lparr>status := COMPLETED\<rparr>) \<noteq> PROCESSING"
    by (simp add: findWithdrawal_def)
  have c: "findWithdrawal 0 (processing_state\<lparr>withdrawals := [sent_withdrawal\<lparr>paypalBatchId := None\<rparr>]\<rparr>)
             = Some (sent_withdrawal\<lparr>paypalBatchId := None\<rparr>)
           \<and> status (sent_withdrawal\<lparr>paypalBatchId := None\<rparr>) = PROCESSING
           \<and> \<not> truthy (paypalBatchId (sent_withdrawal\<lparr>paypalBatchId := None\<rparr>))"
    by (simp add: findWithdrawal_def sent_withdrawal_def)
  from a b c
    forceCheckWithdrawal_guards [where i = 5 and s = processing_state and cl = offline_client]
    forceCheckWithdrawal_guards [where i = 0 and cl = offline_client
       and s = "processing_state\<lparr>withdrawals := [sent_withdrawal\<lparr>status := COMPLETED\<rparr>]\<rparr>"
       and wdr = "sent_withdrawal\<lparr>status := COMPLETED\<rparr>"]
    forceCheckWithdrawal_guards [where i = 0 and cl = offline_client
       and s = "processing_state\<lparr>withdrawals := [sent_withdrawal\<lparr>paypalBatchId := None\<rparr>]\<rparr>"
       and wdr = "sent_withdrawal\<lparr>paypalBatchId := None\<rparr>"]
  show ?thesis by blast
qed

section \<open>What settling one withdrawal does\<close>

lemma ledger_step_same: "ledger_step wdr s wdr s"
  by (simp add: ledger_step_def)

lemma ledger_step_cong:
  assumes "wallets s1 = wallets s" "withdrawals s1 = withdrawals s" "ledger_step wdr s1 w1 s'"
  shows "ledger_step wdr s w1 s'"
proof -
  have r: "wallets (refundToWallet wdr s1) = wallets (refundToWallet wdr s)"
    using assms(1) by (rule refundToWallet_wallets_cong) simp_all
  have w: "withdrawals (saveWithdrawal w1 s1) = withdrawals (saveWithdrawal w1 s)"
    using assms(2) by (rule saveWithdrawal_withdrawals_cong)
  show ?thesis
    using assms(3) unfolding ledger_step_def r w assms(1) assms(2) .
qed

lemma ledger_step_cong2:
  assumes "wallets s2 = wallets s'" "withdrawals s2 = withdrawals s'" "ledger_step wdr s w1 s'"
  shows "ledger_step wdr s w1 s2"
  using assms(3) unfolding ledger_step_def assms(1) assms(2) .

lemma ledger_step_completed:
  "ledger_step wdr s (wdr\<lparr>status := COMPLETED\<rparr>) (saveWithdrawal (wdr\<lparr>status := COMPLETED\<rparr>) s)"
  by (simp add: ledger_step_def)

lemma ledger_step_failed:
  "ledger_step wdr s (wdr\<lparr>status := FAILED, failureReason := Some reason\<rparr>)
     (saveWithdrawal (wdr\<lparr>status := FAILED, failureReason := Some reason\<rparr>)
        (refundToWallet (wdr\<lparr>status := FAILED, failureReason := Some reason\<rparr>) s))"
proof -
  have "wallets (refundToWallet (wdr\<lparr>status := FAILED, failureReason := Some reason\<rparr>) s)
          = wallets (refundToWallet wdr s)"
    by (rule refundToWallet_wallets_cong) simp_all
  moreover have "withdrawals (saveWithdrawal (wdr\<lparr>status := FAILED, failureReason := Some reason\<rparr>)
        (refundToWallet (wdr\<lparr>status := FAILED, failureReason := Some reason\<rparr>) s))
     = withdrawals (saveWithdrawal (wdr\<lparr>status := FAILED, failureReason := Some reason\<rparr>) s)"
    by (rule saveWithdrawal_withdrawals_cong) simp
  ultimately show ?thesis
    unfolding ledger_step_def by (intro disjI2 exI[of _ reason]) simp
qed

lemma updateWithdrawalFromItem_step:
  "ledger_step wdr s (fst (updateWithdrawalFromItem cl wdr item s))
     (snd (updateWithdrawalFromItem cl wdr item s))"
  unfolding updateWithdrawalFromItem_def Let_def
  by (simp add: ledger_step_same ledger_step_completed ledger_step_failed del: withdrawal.update_convs)

lemma updateFromItems_step:
  "ledger_step wdr s (fst (updateFromItems cl wdr n its s)) (snd (updateFromItems cl wdr n its s))"
proof (induction its)
  case Nil
  show ?case by (simp add: ledger_step_same)
next
  case (Cons item rest)
  then show ?case by (simp add: updateWithdrawalFromItem_step)
qed

lemma checkItemStatus_cases:
  "checkItemStatus cl wdr s = s
   \<or> (\<exists>s1. wallets s1 = wallets s \<and> withdrawals s1 = withdrawals s \<and>
         (checkItemStatus cl wdr s = s1
          \<or> checkItemStatus cl wdr s = saveWithdrawal (wdr\<lparr>status := COMPLETED\<rparr>) s1
          \<or> (\<exists>reason. checkItemStatus cl wdr s =
                saveWithdrawal (wdr\<lparr>status := FAILED, failureReason := Some reason\<rparr>)
                  (refundToWallet (wdr\<lparr>status := FAILED, failureReason := Some reason\<rparr>) s1))))"
proof (cases "paypalPayoutItemId wdr")
  case None
  then show ?thesis by (simp add: checkItemStatus_def)
next
  case (Some iid)
  show ?thesis
  proof (cases "iid \<noteq> [] \<and> status wdr = PROCESSING")
    case False
    then show ?thesis using Some by (auto simp: checkItemStatus_def)
  next
    case True
    obtain r s1 where g: "getPayoutItemStatus cl iid s = (r, s1)"
      by (cases "getPayoutItemStatus cl iid s")
    have l: "wallets s1 = wallets s" "withdrawals s1 = withdrawals s"
      using getPayoutItemStatus_ledger[of cl iid s] g by simp_all
    show ?thesis
    proof (cases r)
      case (Inl e)
      have "checkItemStatus cl wdr s = s1\<lparr>console_error := console_error s1 @ [FailedItemStatus iid e]\<rparr>"
        using Some True g Inl by (simp add: checkItemStatus_def)
      moreover have "wallets (s1\<lparr>console_error := console_error s1 @ [FailedItemStatus iid e]\<rparr>) = wallets s"
        "withdrawals (s1\<lparr>console_error := console_error s1 @ [FailedItemStatus iid e]\<rparr>) = withdrawals s"
        using l by simp_all
      ultimately show ?thesis by blast
    next
      case (Inr ist)
      have "checkItemStatus cl wdr s =
          (if item_state ist = ''SUCCESS'' then saveWithdrawal (wdr\<lparr>status := COMPLETED\<rparr>) s1
           else if item_state ist = ''FAILED'' then
             saveWithdrawal (wdr\<lparr>status := FAILED, failureReason :=
                 Some (js_or (errors_message (item_errors ist)) ''PayPal transaction failed'')\<rparr>)
               (refundToWallet (wdr\<lparr>status := FAILED, failureReason :=
                 Some (js_or (errors_message (item_errors ist)) ''PayPal transaction failed'')\<rparr>) s1)
           else s1)"
        using Some True g Inr by (simp add: checkItemStatus_def Let_def)
      then show ?thesis using l by (metis (full_types))
    qed
  qed
qed

lemma checkItemStatus_step: "\<exists>w1. ledger_step wdr s w1 (checkItemStatus cl wdr s)"
proof -
  from checkItemStatus_cases[of cl wdr s]
  consider "checkItemStatus cl wdr s = s"
    | s1 where "wallets s1 = wallets s" "withdrawals s1 = withdrawals s" "checkItemStatus cl wdr s = s1"
    | s1 where "wallets s1 = wallets s" "withdrawals s1 = withdrawals s"
        "checkItemStatus cl wdr s = saveWithdrawal (wdr\<lparr>status := COMPLETED\<rparr>) s1"
    | s1 reason where "wallets s1 = wallets s" "withdrawals s1 = withdrawals s"
        "checkItemStatus cl wdr s =
                saveWithdrawal (wdr\<lparr>status := FAILED, failureReason := Some reason\<rparr>)
                  (refundToWallet (wdr\<lparr>status := FAILED, failureReason := Some reason\<rparr>) s1)"
    by blast
  then show ?thesis
  proof cases
    case 1
    then show ?thesis using ledger_step_same[of wdr s] by auto
  next
    case 2
    have "ledger_step wdr s wdr s1"
      using ledger_step_same[of wdr s] 2(1,2) by (rule_tac ledger_step_cong2) auto
    then show ?thesis using 2(3) by auto
  next
    case 3
    have "ledger_step wdr s (wdr\<lparr>status := COMPLETED\<rparr>) (saveWithdrawal (wdr\<lparr>status := COMPLETED\<rparr>) s1)"
      using 3(1,2) ledger_step_completed[of wdr s1] by (rule ledger_step_cong)
    then show ?thesis using 3(3) by auto
  next
    case 4
    have "ledger_step wdr s (wdr\<lparr>status := FAILED, failureReason := Some reason\<rparr>)
       (saveWithdrawal (wdr\<lparr>status := FAILED, failureReason := Some reason\<rparr>)
                  (refundToWallet (wdr\<lparr>status := FAILED, failureReason := Some reason\<rparr>) s1))"
      using 4(1,2) ledger_step_failed[of wdr s1 reason] by (rule ledger_step_cong)
    then show ?thesis using 4(3) by auto
  qed
qed

lemma checkItemStatus_settled: "status wdr \<noteq> PROCESSING \<Longrightarrow> checkItemStatus cl wdr s = s"
  by (simp add: checkItemStatus_def split: option.splits)

lemma ledger_step_then_check:
  assumes "ledger_step wdr s w1 s2"
  shows "\<exists>w2. ledger_step wdr s w2 (checkItemStatus cl w1 s2)"
proof -
  from assms consider
      "w1 = wdr" "wallets s2 = wallets s" "withdrawals s2 = withdrawals s"
    | "status w1 \<noteq> PROCESSING"
    unfolding ledger_step_def by auto
  then show ?thesis
  proof cases
    case 1
    obtain w2 where "ledger_step wdr s2 w2 (checkItemStatus cl wdr s2)"
      using checkItemStatus_step by blast
    then have "ledger_step wdr s w2 (checkItemStatus cl wdr s2)"
      using 1(2,3) by (rule_tac ledger_step_cong[of s2]) auto
    then show ?thesis using 1(1) by auto
  next
    case 2
    then show ?thesis using assms by (auto simp: checkItemStatus_settled)
  qed
qed

lemma checkWithdrawal_step:
  "\<exists>w2. ledger_step wdr s w2 (snd (checkWithdrawal cl wdr bid s))"
proof -
  obtain r s1 where g: "getPayoutStatus cl bid s = (r, s1)"
    by (cases "getPayoutStatus cl bid s")
  have l: "wallets s1 = wallets s" "withdrawals s1 = withdrawals s"
    using getPayoutStatus_ledger[of cl bid s] g by simp_all
  show ?thesis
  proof (cases r)
    case (Inl e)
    then have "snd (checkWithdrawal cl wdr bid s) = s1"
      using g by (simp add: checkWithdrawal_def)
    moreover have "ledger_step wdr s wdr s1"
      using ledger_step_same[of wdr s] l by (rule_tac ledger_step_cong2) auto
    ultimately show ?thesis by auto
  next
    case (Inr ps)
    define u where "u = (if status_items ps \<noteq> []
                 then updateFromItems cl wdr (length (status_items ps)) (status_items ps) s1
                 else (wdr, s1))"
    have "ledger_step wdr s1 (fst u) (snd u)"
      by (simp add: u_def updateFromItems_step ledger_step_same)
    then have "ledger_step wdr s (fst u) (snd u)"
      using l by (rule_tac ledger_step_cong[of s1]) auto
    then obtain w2 where "ledger_step wdr s w2 (checkItemStatus cl (fst u) (snd u))"
      using ledger_step_then_check by blast
    moreover have "snd (checkWithdrawal cl wdr bid s) = checkItemStatus cl (fst u) (snd u)"
      using g Inr by (simp add: checkWithdrawal_def u_def split: prod.splits)
    ultimately show ?thesis by auto
  qed
qed

lemma processWithdrawal_step:
  "\<exists>w2. ledger_step wdr s w2 (processWithdrawal cl wdr s)"
proof (cases "truthy (paypalBatchId wdr)")
  case False
  then have "processWithdrawal cl wdr s = s"
    by (cases "paypalBatchId wdr") (simp_all add: processWithdrawal_def)
  then show ?thesis using ledger_step_same[of wdr s] by auto
next
  case True
  then obtain bid where b: "paypalBatchId wdr = Some bid" "bid \<noteq> []"
    by (cases "paypalBatchId wdr") auto
  obtain w2 where w2: "ledger_step wdr s w2 (snd (checkWithdrawal cl wdr bid s))"
    using checkWithdrawal_step by blast
  obtain r s1 where c: "checkWithdrawal cl wdr bid s = (r, s1)"
    by (cases "checkWithdrawal cl wdr bid s")
  have "ledger_step wdr s w2 (processWithdrawal cl wdr s)"
  proof (cases r)
    case (Inl e)
    then have "processWithdrawal cl wdr s =
       s1\<lparr>console_error := console_error s1 @ [FailedToUpdate (wd_id wdr) e]\<rparr>"
      using b c by (simp add: processWithdrawal_def)
    then show ?thesis using w2 c by (rule_tac ledger_step_cong2[of _ s1]) auto
  next
    case (Inr u)
    then have "processWithdrawal cl wdr s = s1"
      using b c by (simp add: processWithdrawal_def)
    then show ?thesis using w2 c by simp
  qed
  then show ?thesis by auto
qed

lemma forceCheckWithdrawal_step:
  assumes "findWithdrawal i s = Some wdr"
  shows "\<exists>w2. ledger_step wdr s w2 (snd (forceCheckWithdrawal cl i s))"
proof (cases "status wdr \<noteq> PROCESSING \<or> \<not> truthy (paypalBatchId wdr)")
  case True
  then have "snd (forceCheckWithdrawal cl i s) = s"
    using assms by (auto simp: forceCheckWithdrawal_def)
  then show ?thesis using ledger_step_same[of wdr s] by auto
next
  case False
  obtain r s1 where g: "getPayoutStatus cl (template (paypalBatchId wdr)) s = (r, s1)"
    by (cases "getPayoutStatus cl (template (paypalBatchId wdr)) s")
  have l: "wallets s1 = wallets s" "withdrawals s1 = withdrawals s"
    using getPayoutStatus_ledger[of cl "template (paypalBatchId wdr)" s] g by simp_all
  have same: "ledger_step wdr s wdr s1"
    using ledger_step_same[of wdr s] l by (rule_tac ledger_step_cong2) auto
  show ?thesis
  proof (cases r)
    case (Inl e)
    then have "snd (forceCheckWithdrawal cl i s) = s1"
      using assms False g by (simp add: forceCheckWithdrawal_def)
    then show ?thesis using same by auto
  next
    case (Inr ps)
    show ?thesis
    proof (cases "status_items ps")
      case Nil
      then have "snd (forceCheckWithdrawal cl i s) = s1"
        using assms False g Inr by (simp add: forceCheckWithdrawal_def)
      then show ?thesis using same by auto
    next
      case (Cons item rest)
      then have "snd (forceCheckWithdrawal cl i s) = snd (updateWithdrawalFromItem cl wdr item s1)"
        using assms False g Inr by (simp add: forceCheckWithdrawal_def split: prod.splits)
      moreover have "ledger_step wdr s (fst (updateWithdrawalFromItem cl wdr item s1))
           (snd (updateWithdrawalFromItem cl wdr item s1))"
        using l updateWithdrawalFromItem_step[where wdr = wdr and s = s1 and item = item and cl = cl] by (rule ledger_step_cong)
      ultimately show ?thesis by auto
    qed
  qed
qed

lemma ledger_step_rows:
  assumes "ledger_step wdr s w1 s'" "wd_id wdr < length (withdrawals s)"
  shows "withdrawals s' = withdrawals s \<or> withdrawals s' = (withdrawals s)[wd_id wdr := w1]"
  using assms unfolding ledger_step_def by (auto simp: saveWithdrawal_def)

lemma ledger_step_other:
  assumes "ledger_step wdr s w1 s'" "wd_id wdr < length (withdrawals s)" "j \<noteq> wd_id wdr"
  shows "withdrawals s' ! j = withdrawals s ! j"
  using ledger_step_rows[OF assms(1,2)] assms(3) by auto

section \<open>The withdrawal table before and after reconciliation\<close>

lemma row_kept_refl: "row_kept a a"
  by (simp add: row_kept_def)

lemma row_kept_trans:
  assumes "row_kept a b" "row_kept b c"
  shows "row_kept a c"
proof (cases "b = a")
  case True
  then show ?thesis using assms(2) by simp
next
  case False
  then have ab: "status a = PROCESSING" "status b \<in> {COMPLETED, FAILED}" "wd_id b = wd_id a"
      "wd_creatorId b = wd_creatorId a" "amount b = amount a"
    using assms(1) unfolding row_kept_def by simp_all
  then have "c = b" using assms(2) unfolding row_kept_def by auto
  then show ?thesis using assms(1) by simp
qed



lemma ledger_rel_refl: "ledger_rel s s"
  unfolding ledger_rel_def by (simp add: row_kept_refl)

lemma ledger_rel_length: "ledger_rel s s' \<Longrightarrow> length (withdrawals s') = length (withdrawals s)"
  unfolding ledger_rel_def by blast

lemma ledger_rel_row:
  "ledger_rel s s' \<Longrightarrow> j < length (withdrawals s) \<Longrightarrow>
     row_kept (withdrawals s ! j) (withdrawals s' ! j)"
  unfolding ledger_rel_def by blast

lemma ledger_relI:
  assumes "length (withdrawals s') = length (withdrawals s)"
    and "\<And>j. j < length (withdrawals s) \<Longrightarrow> row_kept (withdrawals s ! j) (withdrawals s' ! j)"
  shows "ledger_rel s s'"
  unfolding ledger_rel_def using assms by blast

lemma ledger_rel_trans:
  assumes "ledger_rel s s1" "ledger_rel s1 s2"
  shows "ledger_rel s s2"
proof (rule ledger_relI)
  show "length (withdrawals s2) = length (withdrawals s)"
    using assms by (simp add: ledger_rel_length)
next
  fix j assume j: "j < length (withdrawals s)"
  then have "row_kept (withdrawals s ! j) (withdrawals s1 ! j)"
    using assms(1) by (rule_tac ledger_rel_row)
  moreover have "row_kept (withdrawals s1 ! j) (withdrawals s2 ! j)"
    using assms j by (rule_tac ledger_rel_row) (simp_all add: ledger_rel_length)
  ultimately show "row_kept (withdrawals s ! j) (withdrawals s2 ! j)" by (rule row_kept_trans)
qed

lemma ledger_step_rel:
  assumes st: "ledger_step wdr s w1 s'"
    and i: "wd_id wdr < length (withdrawals s)"
    and row: "withdrawals s ! wd_id wdr = wdr"
    and p: "status wdr = PROCESSING"
  shows "ledger_rel s s'"
proof -
  from st consider
      (same) "withdrawals s' = withdrawals s"
    | (completed) "withdrawals s' = (withdrawals s)[wd_id wdr := wdr\<lparr>status := COMPLETED\<rparr>]"
    | (failed) reason where
        "withdrawals s' = (withdrawals s)[wd_id wdr := wdr\<lparr>status := FAILED, failureReason := Some reason\<rparr>]"
    unfolding ledger_step_def using i by (auto simp: saveWithdrawal_def)
  then show ?thesis
  proof cases
    case same
    then show ?thesis by (intro ledger_relI) (simp_all add: row_kept_refl)
  next
    case completed
    have rows: "row_kept (withdrawals s ! j) (withdrawals s' ! j)" if "j < length (withdrawals s)" for j
    proof (cases "j = wd_id wdr")
      case True
      then show ?thesis using completed i row p by (simp add: row_kept_def)
    next
      case False
      then show ?thesis using completed by (simp add: row_kept_refl)
    qed
    show ?thesis
    proof (rule ledger_relI)
      show "length (withdrawals s') = length (withdrawals s)" using completed by simp
    next
      fix j assume "j < length (withdrawals s)"
      then show "row_kept (withdrawals s ! j) (withdrawals s' ! j)" by (rule rows)
    qed
  next
    case failed
    have rows: "row_kept (withdrawals s ! j) (withdrawals s' ! j)" if "j < length (withdrawals s)" for j
    proof (cases "j = wd_id wdr")
      case True
      then show ?thesis using failed i row p by (simp add: row_kept_def)
    next
      case False
      then show ?thesis using failed by (simp add: row_kept_refl)
    qed
    show ?thesis
    proof (rule ledger_relI)
      show "length (withdrawals s') = length (withdrawals s)" using failed by simp
    next
      fix j assume "j < length (withdrawals s)"
      then show "row_kept (withdrawals s ! j) (withdrawals s' ! j)" by (rule rows)
    qed
  qed
qed

lemma wf_ids_nth: "wf_ids s \<Longrightarrow> j < length (withdrawals s) \<Longrightarrow> wd_id (withdrawals s ! j) = j"
proof -
  assume a: "wf_ids s" "j < length (withdrawals s)"
  have "wd_id (withdrawals s ! j) = map wd_id (withdrawals s) ! j" using a(2) by simp
  also have "\<dots> = [0..<length (withdrawals s)] ! j" using a(1) by (simp add: wf_ids_def)
  also have "\<dots> = j" using a(2) by simp
  finally show ?thesis .
qed

lemma wf_ids_row:
  assumes "wf_ids s" "w \<in> set (withdrawals s)"
  shows "wd_id w < length (withdrawals s) \<and> withdrawals s ! wd_id w = w"
proof -
  from assms(2) obtain j where j: "j < length (withdrawals s)" "withdrawals s ! j = w"
    by (auto simp: in_set_conv_nth)
  then have "wd_id w = j" using wf_ids_nth[OF assms(1) j(1)] by simp
  then show ?thesis using j by simp
qed

lemma wf_ids_distinct: "wf_ids s \<Longrightarrow> distinct (map wd_id (filter P (withdrawals s)))"
proof -
  assume "wf_ids s"
  then have "distinct (map wd_id (withdrawals s))" by (simp add: wf_ids_def)
  then show ?thesis by (rule distinct_map_filter)
qed

lemma wf_ids_append:
  "wf_ids s \<Longrightarrow> withdrawals s' = withdrawals s @ [w] \<Longrightarrow> wd_id w = length (withdrawals s) \<Longrightarrow> wf_ids s'"
  by (simp add: wf_ids_def)

lemma ledger_rel_wf:
  assumes "ledger_rel s s'" "wf_ids s"
  shows "wf_ids s'"
proof -
  have len: "length (withdrawals s') = length (withdrawals s)"
    using assms(1) by (rule ledger_rel_length)
  have "map wd_id (withdrawals s') = map wd_id (withdrawals s)"
  proof (rule nth_equalityI)
    show "length (map wd_id (withdrawals s')) = length (map wd_id (withdrawals s))"
      using len by simp
  next
    fix j assume "j < length (map wd_id (withdrawals s'))"
    then have j: "j < length (withdrawals s)" using len by simp
    have "row_kept (withdrawals s ! j) (withdrawals s' ! j)"
      using assms(1) j by (rule ledger_rel_row)
    then have "wd_id (withdrawals s' ! j) = wd_id (withdrawals s ! j)"
      unfolding row_kept_def by auto
    then show "map wd_id (withdrawals s') ! j = map wd_id (withdrawals s) ! j"
      using j len by simp
  qed
  then show ?thesis using assms(2) len by (simp add: wf_ids_def)
qed

lemma processWithdrawal_rel:
  assumes "wd_id wdr < length (withdrawals s)" "withdrawals s ! wd_id wdr = wdr"
    "status wdr = PROCESSING"
  shows "ledger_rel s (processWithdrawal cl wdr s)"
proof -
  obtain w2 where "ledger_step wdr s w2 (processWithdrawal cl wdr s)"
    using processWithdrawal_step by blast
  then show ?thesis using assms by (rule ledger_step_rel)
qed

lemma processWithdrawal_other:
  assumes "wd_id wdr < length (withdrawals s)" "j \<noteq> wd_id wdr"
  shows "withdrawals (processWithdrawal cl wdr s) ! j = withdrawals s ! j"
proof -
  obtain w2 where "ledger_step wdr s w2 (processWithdrawal cl wdr s)"
    using processWithdrawal_step by blast
  then show ?thesis using assms by (rule ledger_step_other)
qed

lemma processAll_rel:
  assumes "distinct (map wd_id rest)"
    and "\<forall>w \<in> set rest. wd_id w < length (withdrawals s) \<and> withdrawals s ! wd_id w = w
            \<and> status w = PROCESSING"
  shows "ledger_rel s (processAll cl rest s)"
  using assms
proof (induction rest arbitrary: s)
  case Nil
  show ?case by (simp add: ledger_rel_refl)
next
  case (Cons wdr rest)
  define s1 where "s1 = processWithdrawal cl wdr s"
  have w: "wd_id wdr < length (withdrawals s)" "withdrawals s ! wd_id wdr = wdr"
    "status wdr = PROCESSING"
    using Cons.prems(2) by simp_all
  have r1: "ledger_rel s s1"
    unfolding s1_def using w by (rule processWithdrawal_rel)
  have len: "length (withdrawals s1) = length (withdrawals s)"
    using r1 by (rule ledger_rel_length)
  have rest: "\<forall>w \<in> set rest. wd_id w < length (withdrawals s1) \<and> withdrawals s1 ! wd_id w = w
            \<and> status w = PROCESSING"
  proof
    fix x assume x: "x \<in> set rest"
    have "wd_id wdr \<notin> wd_id ` set rest" using Cons.prems(1) by simp
    then have ne: "wd_id x \<noteq> wd_id wdr" using x by (metis imageI)
    have xs: "wd_id x < length (withdrawals s)" "withdrawals s ! wd_id x = x" "status x = PROCESSING"
      using Cons.prems(2) x by simp_all
    have "withdrawals s1 ! wd_id x = withdrawals s ! wd_id x"
      unfolding s1_def using w(1) ne by (rule processWithdrawal_other)
    then show "wd_id x < length (withdrawals s1) \<and> withdrawals s1 ! wd_id x = x
            \<and> status x = PROCESSING"
      using xs len by simp
  qed
  have "distinct (map wd_id rest)" using Cons.prems(1) by simp
  then have "ledger_rel s1 (processAll cl rest s1)" using rest by (rule Cons.IH)
  with r1 have "ledger_rel s (processAll cl rest s1)" by (rule ledger_rel_trans)
  then show ?case by (simp add: s1_def)
qed

lemma updateWithdrawalStatuses_rel:
  assumes "wf_ids s"
  shows "ledger_rel s (updateWithdrawalStatuses cl s)"
  unfolding updateWithdrawalStatuses_def
proof (rule processAll_rel)
  show "distinct (map wd_id (processingWithdrawals s))"
    unfolding processingWithdrawals_def using assms by (rule wf_ids_distinct)
next
  show "\<forall>w \<in> set (processingWithdrawals s). wd_id w < length (withdrawals s)
          \<and> withdrawals s ! wd_id w = w \<and> status w = PROCESSING"
    using wf_ids_row[OF assms] by (auto simp: processingWithdrawals_def)
qed

lemma forceCheckWithdrawal_rel:
  assumes "wf_ids s"
  shows "ledger_rel s (snd (forceCheckWithdrawal cl i s))"
proof (cases "findWithdrawal i s")
  case None
  then show ?thesis by (simp add: forceCheckWithdrawal_def ledger_rel_refl)
next
  case (Some wdr)
  then have i: "i < length (withdrawals s)" "withdrawals s ! i = wdr"
    by (auto simp: findWithdrawal_def split: if_splits)
  then have id: "wd_id wdr = i" using wf_ids_nth[OF assms i(1)] by simp
  show ?thesis
  proof (cases "status wdr = PROCESSING")
    case False
    then show ?thesis using Some by (simp add: forceCheckWithdrawal_def ledger_rel_refl)
  next
    case True
    obtain w2 where "ledger_step wdr s w2 (snd (forceCheckWithdrawal cl i s))"
      using forceCheckWithdrawal_step[OF Some] by blast
    then show ?thesis using i id True by (rule_tac ledger_step_rel) auto
  qed
qed

section \<open>The balance of a wallet\<close>

text \<open>The run in which a creator funded with 13.1 asks for 5.03 while the provider is down.\<close>

lemma rounding_run:
  "run rounding_scenario initial_state =
     \<lparr>wallets = [\<lparr>creatorId = ''alice'', balance = 1843661097454797 / 140737488355328,
                  paypalEmail = Some ''alice@example.com'', paypalVerified = True\<rparr>],
      withdrawals =
        [\<lparr>wd_id = 0, wd_creatorId = ''alice'', amount = double_5_03, status = FAILED,
          wd_paypalEmail = Some ''alice@example.com'', createdAt = 7,
          paypalBatchId = None, paypalPayoutItemId = None,
          failureReason = Some ''PayPal payout failed (503): Service Unavailable''\<rparr>],
      calls = [PayoutsPostRequest ''alice@example.com'' double_5_03 ''USD''],
      console_error = []\<rparr>"
  by (simp add: rounding_scenario_def initial_state_def example_defs service_defs
      string_of_nat_503 js_add_0_13_1 rounding_amounts js_sub_13_1_5_03 js_add_back_5_03)

lemma rounding_deposits: "deposits ''alice'' rounding_scenario initial_state = double_13_1"
  by (simp add: rounding_scenario_def initial_state_def example_defs service_defs
      string_of_nat_503 js_add_0_13_1 rounding_amounts js_sub_13_1_5_03 js_add_back_5_03)

text \<open>
  C1, at the failing input. A wallet is created and linked, the double 13.1 is deposited
  and the double 5.03 is requested while the provider is down. The only withdrawal is
  FAILED, so the deposits minus the amounts of the PENDING, PROCESSING and COMPLETED
  withdrawals are 13.1; the balance is the double above 13.1, because the debit and the
  credit of the failed request round and do not cancel.
\<close>

theorem balance_ledger_rounding:
  "map_option balance (findWallet ''alice'' (run rounding_scenario initial_state))
     = Some (1843661097454797 / 140737488355328)
   \<and> map status (withdrawals (run rounding_scenario initial_state)) = [FAILED]
   \<and> deposits ''alice'' rounding_scenario initial_state = double_13_1
   \<and> withdrawn ''alice'' (run rounding_scenario initial_state) = 0
   \<and> deposits ''alice'' rounding_scenario initial_state
       - withdrawn ''alice'' (run rounding_scenario initial_state)
     = 7374644389819187 / 562949953421312
   \<and> 1843661097454797 / 140737488355328
       - (deposits ''alice'' rounding_scenario initial_state
          - withdrawn ''alice'' (run rounding_scenario initial_state))
     = 1 / 562949953421312"
proof -
  have b: "map_option balance (findWallet ''alice'' (run rounding_scenario initial_state))
     = Some (1843661097454797 / 140737488355328)"
    by (simp add: rounding_run findWallet_def)
  have st: "map status (withdrawals (run rounding_scenario initial_state)) = [FAILED]"
    by (simp add: rounding_run)
  have w: "withdrawn ''alice'' (run rounding_scenario initial_state) = 0"
    by (simp add: rounding_run withdrawn_def)
  from b st w rounding_deposits double_13_1_value double_13_1_least show ?thesis by simp
qed

section \<open>Terminal withdrawals\<close>

lemma wallet_ops_withdrawals:
  "withdrawals (snd (createWallet c s)) = withdrawals s"
  "withdrawals (snd (linkPayPal c email s)) = withdrawals s"
  "withdrawals (deposit c amt s) = withdrawals s"
  by (simp_all add: createWallet_def linkPayPal_def deposit_def Let_def split: option.splits)

text \<open>Every run from the empty state keeps the primary key of the withdrawal table.\<close>

lemma wf_ids_cong: "withdrawals s' = withdrawals s \<Longrightarrow> wf_ids s \<Longrightarrow> wf_ids s'"
  by (simp add: wf_ids_def)

lemma exec_wf:
  assumes wf: "wf_ids s"
  shows "wf_ids (exec op s)"
proof (cases op)
  case (CreateWallet c)
  then show ?thesis using wf by (simp add: wf_ids_def wallet_ops_withdrawals)
next
  case (LinkPayPal c email)
  then show ?thesis using wf by (simp add: wf_ids_def wallet_ops_withdrawals)
next
  case (Deposit c amt)
  then show ?thesis using wf by (simp add: wf_ids_def wallet_ops_withdrawals)
next
  case (RequestWithdrawal cl now c amt)
  have "wf_ids (snd (requestWithdrawal cl now c amt s))"
  proof (cases rule: requestWithdrawal_cases[of cl now c amt s])
    case rejected
    then show ?thesis using wf by simp
  next
    case (failed w reason)
    show ?thesis using wf failed(2) by (rule wf_ids_append) simp
  next
    case (sent w pr)
    show ?thesis using wf sent(2) by (rule wf_ids_append) simp
  qed
  then show ?thesis using RequestWithdrawal by simp
next
  case (UpdateWithdrawalStatuses cl)
  have "ledger_rel s (updateWithdrawalStatuses cl s)"
    using wf by (rule updateWithdrawalStatuses_rel)
  then have "wf_ids (updateWithdrawalStatuses cl s)" using wf by (rule ledger_rel_wf)
  then show ?thesis using UpdateWithdrawalStatuses by simp
next
  case (ForceCheckWithdrawal cl i)
  have "ledger_rel s (snd (forceCheckWithdrawal cl i s))"
    using wf by (rule forceCheckWithdrawal_rel)
  then have "wf_ids (snd (forceCheckWithdrawal cl i s))" using wf by (rule ledger_rel_wf)
  then show ?thesis using ForceCheckWithdrawal by simp
qed

lemma run_wf_from: "wf_ids s \<Longrightarrow> wf_ids (run ops s)"
proof (induction ops arbitrary: s)
  case Nil
  then show ?case by simp
next
  case (Cons op ops)
  have "wf_ids (exec op s)" using Cons.prems by (rule exec_wf)
  then have "wf_ids (run ops (exec op s))" by (rule Cons.IH)
  then show ?case by simp
qed

lemma initial_wf: "wf_ids initial_state"
  by (simp add: wf_ids_def initial_state_def)

lemma run_wf: "wf_ids (run ops initial_state)"
  using initial_wf by (rule run_wf_from)




section \<open>Errors during a tick\<close>

lemma processAll_append:
  "processAll cl (xs @ ys) s = processAll cl ys (processAll cl xs s)"
  by (induction xs arbitrary: s) simp_all

text \<open>
  C7. A tick handles the PROCESSING withdrawals one after the other, whatever happens to
  each. When the batch fetch for one of them throws, the error is written to the console,
  the two tables are as they were before that withdrawal, and the loop goes on with the
  withdrawals after it. When the fetch of the item status throws, the inner handler
  writes it to the console and nothing else changes.
\<close>

theorem reconciliation_continues:
  assumes "processingWithdrawals s = before @ wdr # remaining"
  shows "updateWithdrawalStatuses cl s =
           processAll cl remaining (processWithdrawal cl wdr (processAll cl before s))
       \<and> (paypalBatchId wdr = Some bid \<and> bid \<noteq> []
            \<and> getPayoutStatus cl bid (processAll cl before s) = (Inl e, s1)
           \<longrightarrow> updateWithdrawalStatuses cl s =
                 processAll cl remaining
                   (s1\<lparr>console_error := console_error s1 @ [FailedToUpdate (wd_id wdr) e]\<rparr>)
               \<and> wallets s1 = wallets (processAll cl before s)
               \<and> withdrawals s1 = withdrawals (processAll cl before s))
       \<and> (paypalPayoutItemId w = Some iid \<and> iid \<noteq> [] \<and> status w = PROCESSING
            \<and> getPayoutItemStatus cl iid s2 = (Inl e, s3)
           \<longrightarrow> checkItemStatus cl w s2 =
                 s3\<lparr>console_error := console_error s3 @ [FailedItemStatus iid e]\<rparr>
               \<and> wallets s3 = wallets s2 \<and> withdrawals s3 = withdrawals s2)"
proof -
  have a: "updateWithdrawalStatuses cl s =
           processAll cl remaining (processWithdrawal cl wdr (processAll cl before s))"
    by (simp add: updateWithdrawalStatuses_def assms processAll_append)
  have b: "paypalBatchId wdr = Some bid \<and> bid \<noteq> []
            \<and> getPayoutStatus cl bid (processAll cl before s) = (Inl e, s1)
           \<longrightarrow> updateWithdrawalStatuses cl s =
                 processAll cl remaining
                   (s1\<lparr>console_error := console_error s1 @ [FailedToUpdate (wd_id wdr) e]\<rparr>)
               \<and> wallets s1 = wallets (processAll cl before s)
               \<and> withdrawals s1 = withdrawals (processAll cl before s)"
  proof (intro impI, elim conjE)
    assume h: "paypalBatchId wdr = Some bid" "bid \<noteq> []"
      "getPayoutStatus cl bid (processAll cl before s) = (Inl e, s1)"
    have "processWithdrawal cl wdr (processAll cl before s) =
            s1\<lparr>console_error := console_error s1 @ [FailedToUpdate (wd_id wdr) e]\<rparr>"
      using h by (simp add: processWithdrawal_def checkWithdrawal_def)
    moreover have "wallets s1 = wallets (processAll cl before s)"
       "withdrawals s1 = withdrawals (processAll cl before s)"
      using getPayoutStatus_ledger[of cl bid "processAll cl before s"] h(3) by simp_all
    ultimately show "updateWithdrawalStatuses cl s =
                 processAll cl remaining
                   (s1\<lparr>console_error := console_error s1 @ [FailedToUpdate (wd_id wdr) e]\<rparr>)
               \<and> wallets s1 = wallets (processAll cl before s)
               \<and> withdrawals s1 = withdrawals (processAll cl before s)"
      using a by simp
  qed
  have c: "paypalPayoutItemId w = Some iid \<and> iid \<noteq> [] \<and> status w = PROCESSING
            \<and> getPayoutItemStatus cl iid s2 = (Inl e, s3)
           \<longrightarrow> checkItemStatus cl w s2 =
                 s3\<lparr>console_error := console_error s3 @ [FailedItemStatus iid e]\<rparr>
               \<and> wallets s3 = wallets s2 \<and> withdrawals s3 = withdrawals s2"
  proof (intro impI, elim conjE)
    assume h: "paypalPayoutItemId w = Some iid" "iid \<noteq> []" "status w = PROCESSING"
      "getPayoutItemStatus cl iid s2 = (Inl e, s3)"
    have "checkItemStatus cl w s2 =
                 s3\<lparr>console_error := console_error s3 @ [FailedItemStatus iid e]\<rparr>"
      using h by (simp add: checkItemStatus_def)
    moreover have "wallets s3 = wallets s2" "withdrawals s3 = withdrawals s2"
      using getPayoutItemStatus_ledger[of cl iid s2] h(4) by simp_all
    ultimately show "checkItemStatus cl w s2 =
                 s3\<lparr>console_error := console_error s3 @ [FailedItemStatus iid e]\<rparr>
               \<and> wallets s3 = wallets s2 \<and> withdrawals s3 = withdrawals s2"
      by simp
  qed
  from a b c show ?thesis by (intro conjI)
qed

theorem reconciliation_continues_witness:
  "processingWithdrawals two_state = [] @ sent_withdrawal # [second_withdrawal]
   \<and> updateWithdrawalStatuses flaky_client two_state =
       two_state\<lparr>withdrawals := [sent_withdrawal, second_withdrawal\<lparr>status := COMPLETED\<rparr>],
         calls := [PayoutsGetRequest ''B1'', PayoutsGetRequest ''B2''],
         console_error := [FailedToUpdate 0
            (BadRequestException ''Failed to get payout status (503): Service Unavailable'')]\<rparr>"
proof -
  define e where
    "e = BadRequestException ''Failed to get payout status (503): Service Unavailable''"
  define s1 where "s1 = two_state\<lparr>calls := [PayoutsGetRequest ''B1'']\<rparr>"
  have h1: "processingWithdrawals two_state = [] @ sent_withdrawal # [second_withdrawal]"
    by (simp add: processingWithdrawals_def two_state_def sent_withdrawal_def
        second_withdrawal_def)
  have h2: "paypalBatchId sent_withdrawal = Some ''B1'' \<and> ''B1'' \<noteq> []
       \<and> getPayoutStatus flaky_client ''B1'' (processAll flaky_client [] two_state) = (Inl e, s1)"
    by (simp add: sent_withdrawal_def getPayoutStatus_def execute_def flaky_client_def ascii_env_def
        getPayoutStatus_catch_def string_of_nat_503 e_def s1_def two_state_def)
  have r: "processAll flaky_client [second_withdrawal]
             (s1\<lparr>console_error := console_error s1 @ [FailedToUpdate (wd_id sent_withdrawal) e]\<rparr>)
        = two_state\<lparr>withdrawals := [sent_withdrawal, second_withdrawal\<lparr>status := COMPLETED\<rparr>],
         calls := [PayoutsGetRequest ''B1'', PayoutsGetRequest ''B2''],
         console_error := [FailedToUpdate 0 e]\<rparr>"
    by (simp add: s1_def two_state_def more_example_defs example_defs service_defs str_eval)
  note t = reconciliation_continues [OF h1, where cl = flaky_client and bid = "''B1''" and e = e
      and ?s1.0 = s1]
  have "updateWithdrawalStatuses flaky_client two_state =
          processAll flaky_client [second_withdrawal]
             (s1\<lparr>console_error := console_error s1 @ [FailedToUpdate (wd_id sent_withdrawal) e]\<rparr>)"
    using t [THEN conjunct2, THEN conjunct1, THEN mp, OF h2, THEN conjunct1] .
  then have "updateWithdrawalStatuses flaky_client two_state =
       two_state\<lparr>withdrawals := [sent_withdrawal, second_withdrawal\<lparr>status := COMPLETED\<rparr>],
         calls := [PayoutsGetRequest ''B1'', PayoutsGetRequest ''B2''],
         console_error := [FailedToUpdate 0 e]\<rparr>"
    by (simp only: r)
  then show ?thesis using h1 unfolding e_def by (intro conjI)
qed

section \<open>The item a tick applies\<close>

lemma updateFromItems_stored:
  assumes "truthy (paypalPayoutItemId wdr)"
  shows "updateFromItems cl wdr n its s =
     (case List.find (\<lambda>it. payout_item_id it = paypalPayoutItemId wdr) its of
        None \<Rightarrow> (wdr, s)
      | Some item \<Rightarrow> updateWithdrawalFromItem cl wdr item s)"
  using assms by (induction its) simp_all

lemma updateFromItems_not_stored:
  assumes "\<not> truthy (paypalPayoutItemId wdr)"
  shows "updateFromItems cl wdr n its s =
     (case its of [] \<Rightarrow> (wdr, s)
      | item # rest \<Rightarrow> if n = 1 then updateWithdrawalFromItem cl wdr item s else (wdr, s))"
  using assms by (induction its) (simp_all split: list.splits)

lemma updateFromItems_select:
  "updateFromItems cl wdr (length its) its s =
     (case select_item wdr its of
        None \<Rightarrow> (wdr, s)
      | Some item \<Rightarrow> updateWithdrawalFromItem cl wdr item s)"
proof (cases "truthy (paypalPayoutItemId wdr)")
  case True
  then show ?thesis by (simp add: updateFromItems_stored select_item_def)
next
  case False
  then show ?thesis
    by (cases its) (simp_all add: updateFromItems_not_stored select_item_def split: list.splits)
qed

lemma select_item_mem: "select_item wdr its = Some item \<Longrightarrow> item \<in> set its"
  by (auto simp: select_item_def find_Some_iff split: if_splits list.splits)

text \<open>The statuses of the items of a fetched batch are normalized ones.\<close>

lemma getPayoutStatus_normalized:
  assumes "getPayoutStatus cl bid s = (Inr ps, s1)"
  shows "\<forall>item \<in> set (status_items ps).
           \<exists>raw. transaction_status item = Some (normalizeTransactionStatus cl raw)"
proof -
  from assms obtain its where "status_items ps = map (normalize_item cl) its"
    by (auto simp: getPayoutStatus_def Let_def execute_def split: sum.splits)
  then show ?thesis by (auto simp: normalize_item_def)
qed

text \<open>The batch step of one iteration, in terms of the selected item.\<close>

lemma checkWithdrawal_select:
  assumes "getPayoutStatus cl bid s = (Inr ps, s1)"
  shows "snd (checkWithdrawal cl wdr bid s) =
     (case select_item wdr (status_items ps) of
        None \<Rightarrow> checkItemStatus cl wdr s1
      | Some item \<Rightarrow>
          checkItemStatus cl (fst (updateWithdrawalFromItem cl wdr item s1))
            (snd (updateWithdrawalFromItem cl wdr item s1)))"
proof -
  define u where "u = (if status_items ps \<noteq> []
                 then updateFromItems cl wdr (length (status_items ps)) (status_items ps) s1
                 else (wdr, s1))"
  have c: "snd (checkWithdrawal cl wdr bid s) = checkItemStatus cl (fst u) (snd u)"
    using assms by (simp add: checkWithdrawal_def u_def split: prod.splits)
  have u: "u = (case select_item wdr (status_items ps) of
        None \<Rightarrow> (wdr, s1)
      | Some item \<Rightarrow> updateWithdrawalFromItem cl wdr item s1)"
  proof (cases "status_items ps = []")
    case True
    then show ?thesis by (simp add: u_def select_item_def)
  next
    case False
    then show ?thesis by (simp add: u_def updateFromItems_select)
  qed
  show ?thesis
    by (cases "select_item wdr (status_items ps)") (simp_all add: c u)
qed

lemma processWithdrawal_fetched:
  assumes "paypalBatchId wdr = Some bid" "bid \<noteq> []" "getPayoutStatus cl bid s = (Inr ps, s1)"
  shows "processWithdrawal cl wdr s = snd (checkWithdrawal cl wdr bid s)"
  using assms by (simp add: processWithdrawal_def checkWithdrawal_def split: prod.splits)

text \<open>
  C5, as the code has it. For a PROCESSING withdrawal of the table with a batch id whose
  batch is fetched, one iteration of the tick selects the item with the stored item id
  or, with no stored id, the only item of the batch; its status is a normalized one. A
  selected item that is SUCCESS marks the withdrawal COMPLETED and leaves the wallets
  alone; one that is FAILED marks it FAILED and credits the amount back to the creator's
  wallet, the new balance being the sum as a double. With no selected item, with
  PENDING or UNKNOWN, or with any status whose lower-case form is none of success,
  completed, claimed, failed, returned, refunded, blocked, the batch step changes
  nothing and the iteration is the check against the item endpoint: without a stored
  item id both tables stay as they were; with one, the item status SUCCESS or FAILED is
  applied in the same way, any other answer leaves the tables alone, and an error of the
  endpoint is logged and leaves them alone. What the lower-case conversion does to the
  four words SUCCESS, FAILED, PENDING and UNKNOWN is a hypothesis where these are named.
\<close>

theorem reconciliation_applies_selected_item:
  assumes "wd_id wdr < length (withdrawals s)" and "status wdr = PROCESSING"
      and "paypalBatchId wdr = Some bid" and "bid \<noteq> []"
      and "getPayoutStatus cl bid s = (Inr ps, s1)"
  shows "(select_item wdr (status_items ps) = Some item
          \<longrightarrow> item \<in> set (status_items ps)
              \<and> (\<exists>raw. transaction_status item = Some (normalizeTransactionStatus cl raw)))
       \<and> (lowers_status_words cl \<and> select_item wdr (status_items ps) = Some item
            \<and> transaction_status item = Some ''SUCCESS''
          \<longrightarrow> withdrawals (processWithdrawal cl wdr s)
                = (withdrawals s)[wd_id wdr := wdr\<lparr>status := COMPLETED\<rparr>]
              \<and> wallets (processWithdrawal cl wdr s) = wallets s)
       \<and> (lowers_status_words cl \<and> select_item wdr (status_items ps) = Some item
            \<and> transaction_status item = Some ''FAILED''
          \<longrightarrow> withdrawals (processWithdrawal cl wdr s)
                = (withdrawals s)[wd_id wdr := wdr\<lparr>status := FAILED, failureReason :=
                     Some (js_or (errors_message (errors item)) ''PayPal transaction failed'')\<rparr>]
              \<and> wallets (processWithdrawal cl wdr s) = wallets (refundToWallet wdr s)
              \<and> (findWallet (wd_creatorId wdr) s = Some wal
                  \<longrightarrow> findWallet (wd_creatorId wdr) (processWithdrawal cl wdr s)
                        = Some (wal\<lparr>balance := js_add (balance wal) (amount wdr)\<rparr>)))
       \<and> (select_item wdr (status_items ps) = None
            \<or> (select_item wdr (status_items ps) = Some item
                \<and> ((lowers_status_words cl
                     \<and> (transaction_status item = Some ''PENDING''
                         \<or> transaction_status item = Some ''UNKNOWN''))
                    \<or> map_option (toLowerCase cl) (transaction_status item) \<notin>
                         {Some ''success'', Some ''completed'', Some ''claimed'',
                          Some ''failed'', Some ''returned'', Some ''refunded'',
                          Some ''blocked''}))
          \<longrightarrow> processWithdrawal cl wdr s = checkItemStatus cl wdr s1
              \<and> (\<not> truthy (paypalPayoutItemId wdr)
                  \<longrightarrow> wallets (processWithdrawal cl wdr s) = wallets s
                      \<and> withdrawals (processWithdrawal cl wdr s) = withdrawals s))
       \<and> (paypalPayoutItemId wdr = Some iid \<and> iid \<noteq> []
            \<and> getPayoutItemStatus cl iid s1 = (Inr ist, s2)
          \<longrightarrow> checkItemStatus cl wdr s1 =
               (if item_state ist = ''SUCCESS''
                  then saveWithdrawal (wdr\<lparr>status := COMPLETED\<rparr>) s2
                else if item_state ist = ''FAILED''
                  then saveWithdrawal (wdr\<lparr>status := FAILED, failureReason :=
                          Some (js_or (errors_message (item_errors ist))
                                  ''PayPal transaction failed'')\<rparr>)
                        (refundToWallet (wdr\<lparr>status := FAILED, failureReason :=
                          Some (js_or (errors_message (item_errors ist))
                                  ''PayPal transaction failed'')\<rparr>) s2)
                else s2)
              \<and> wallets s2 = wallets s \<and> withdrawals s2 = withdrawals s)
       \<and> (paypalPayoutItemId wdr = Some iid \<and> iid \<noteq> []
            \<and> getPayoutItemStatus cl iid s1 = (Inl err, s2)
          \<longrightarrow> checkItemStatus cl wdr s1
                = s2\<lparr>console_error := console_error s2 @ [FailedItemStatus iid err]\<rparr>
              \<and> wallets s2 = wallets s \<and> withdrawals s2 = withdrawals s)"
proof -
  define s' where "s' = processWithdrawal cl wdr s"
  define failed where "failed = wdr\<lparr>status := FAILED, failureReason :=
                     Some (js_or (errors_message (errors item)) ''PayPal transaction failed'')\<rparr>"
  define other where "other = (map_option (toLowerCase cl) (transaction_status item) \<notin>
                         {Some ''success'', Some ''completed'', Some ''claimed'',
                          Some ''failed'', Some ''returned'', Some ''refunded'',
                          Some ''blocked''})"
  have l: "wallets s1 = wallets s" "withdrawals s1 = withdrawals s"
    using getPayoutStatus_ledger[of cl bid s] assms(5) by simp_all
  have i1: "wd_id wdr < length (withdrawals s1)" using assms(1) l by simp
  have p: "s' = (case select_item wdr (status_items ps) of
        None \<Rightarrow> checkItemStatus cl wdr s1
      | Some item \<Rightarrow>
          checkItemStatus cl (fst (updateWithdrawalFromItem cl wdr item s1))
            (snd (updateWithdrawalFromItem cl wdr item s1)))"
    unfolding s'_def processWithdrawal_fetched[OF assms(3,4,5)]
    using assms(5) by (rule checkWithdrawal_select)
  have n: "select_item wdr (status_items ps) = Some item
          \<longrightarrow> item \<in> set (status_items ps)
              \<and> (\<exists>raw. transaction_status item = Some (normalizeTransactionStatus cl raw))"
  proof
    assume "select_item wdr (status_items ps) = Some item"
    then have m: "item \<in> set (status_items ps)" by (rule select_item_mem)
    then have "\<exists>raw. transaction_status item = Some (normalizeTransactionStatus cl raw)"
      using getPayoutStatus_normalized[OF assms(5)] by simp
    with m show "item \<in> set (status_items ps)
              \<and> (\<exists>raw. transaction_status item = Some (normalizeTransactionStatus cl raw))"
      by simp
  qed
  have a: "lowers_status_words cl \<and> select_item wdr (status_items ps) = Some item
            \<and> transaction_status item = Some ''SUCCESS''
          \<longrightarrow> withdrawals s' = (withdrawals s)[wd_id wdr := wdr\<lparr>status := COMPLETED\<rparr>]
              \<and> wallets s' = wallets s"
  proof (intro impI, elim conjE)
    assume h: "lowers_status_words cl" "select_item wdr (status_items ps) = Some item"
      "transaction_status item = Some ''SUCCESS''"
    have "s' = saveWithdrawal (wdr\<lparr>status := COMPLETED\<rparr>) s1"
      using h(2) by (simp add: p updateWithdrawalFromItem_SUCCESS[OF h(1,3)]
          checkItemStatus_settled)
    then show "withdrawals s' = (withdrawals s)[wd_id wdr := wdr\<lparr>status := COMPLETED\<rparr>]
              \<and> wallets s' = wallets s"
      using i1 l by (simp add: saveWithdrawal_row)
  qed
  have b: "lowers_status_words cl \<and> select_item wdr (status_items ps) = Some item
            \<and> transaction_status item = Some ''FAILED''
          \<longrightarrow> withdrawals s' = (withdrawals s)[wd_id wdr := failed]
              \<and> wallets s' = wallets (refundToWallet wdr s)
              \<and> (findWallet (wd_creatorId wdr) s = Some wal
                  \<longrightarrow> findWallet (wd_creatorId wdr) s'
                        = Some (wal\<lparr>balance := js_add (balance wal) (amount wdr)\<rparr>))"
  proof (intro impI, elim conjE)
    assume h: "lowers_status_words cl" "select_item wdr (status_items ps) = Some item"
      "transaction_status item = Some ''FAILED''"
    have u: "updateWithdrawalFromItem cl wdr item s1
               = (failed, saveWithdrawal failed (refundToWallet failed s1))"
      unfolding failed_def using h(1,3) by (rule updateWithdrawalFromItem_FAILED)
    have st: "status failed \<noteq> PROCESSING" by (simp add: failed_def)
    have s': "s' = saveWithdrawal failed (refundToWallet failed s1)"
      using h(2) by (simp add: p u checkItemStatus_settled[OF st])
    have "withdrawals (refundToWallet failed s1) = withdrawals s1"
      by (simp add: refundToWallet_fields)
    then have rows: "withdrawals s' = (withdrawals s)[wd_id wdr := failed]"
      using i1 l by (simp add: s' saveWithdrawal_def failed_def)
    have "wallets (refundToWallet failed s1) = wallets (refundToWallet wdr s)"
      using l(1) by (rule refundToWallet_wallets_cong) (simp_all add: failed_def)
    then have wal: "wallets s' = wallets (refundToWallet wdr s)"
      by (simp add: s')
    then have "findWallet (wd_creatorId wdr) s' = findWallet (wd_creatorId wdr) (refundToWallet wdr s)"
      by (rule findWallet_cong)
    then have "findWallet (wd_creatorId wdr) s = Some wal
                  \<longrightarrow> findWallet (wd_creatorId wdr) s'
                        = Some (wal\<lparr>balance := js_add (balance wal) (amount wdr)\<rparr>)"
      by (simp add: findWallet_refund)
    then show "withdrawals s' = (withdrawals s)[wd_id wdr := failed]
              \<and> wallets s' = wallets (refundToWallet wdr s)
              \<and> (findWallet (wd_creatorId wdr) s = Some wal
                  \<longrightarrow> findWallet (wd_creatorId wdr) s'
                        = Some (wal\<lparr>balance := js_add (balance wal) (amount wdr)\<rparr>))"
      using rows wal by simp
  qed
  have c: "select_item wdr (status_items ps) = None
            \<or> (select_item wdr (status_items ps) = Some item
                \<and> ((lowers_status_words cl
                     \<and> (transaction_status item = Some ''PENDING''
                         \<or> transaction_status item = Some ''UNKNOWN''))
                    \<or> other))
          \<longrightarrow> s' = checkItemStatus cl wdr s1
              \<and> (\<not> truthy (paypalPayoutItemId wdr)
                  \<longrightarrow> wallets s' = wallets s \<and> withdrawals s' = withdrawals s)"
  proof (intro impI)
    assume h: "select_item wdr (status_items ps) = None
            \<or> (select_item wdr (status_items ps) = Some item
                \<and> ((lowers_status_words cl
                     \<and> (transaction_status item = Some ''PENDING''
                         \<or> transaction_status item = Some ''UNKNOWN''))
                    \<or> other))"
    have e: "s' = checkItemStatus cl wdr s1"
    proof (cases "select_item wdr (status_items ps)")
      case None
      then show ?thesis by (simp add: p)
    next
      case (Some x)
      then have x: "x = item" and k: "(lowers_status_words cl
                     \<and> (transaction_status item = Some ''PENDING''
                         \<or> transaction_status item = Some ''UNKNOWN''))
                    \<or> other"
        using h by simp_all
      from k have "updateWithdrawalFromItem cl wdr item s1 = (wdr, s1)"
      proof
        assume "lowers_status_words cl
                     \<and> (transaction_status item = Some ''PENDING''
                         \<or> transaction_status item = Some ''UNKNOWN'')"
        then show ?thesis by (simp add: updateWithdrawalFromItem_PENDING)
      next
        assume other
        then show ?thesis unfolding other_def by (rule updateWithdrawalFromItem_other)
      qed
      then show ?thesis using Some x by (simp add: p)
    qed
    have "checkItemStatus cl wdr s1 = s1" if "\<not> truthy (paypalPayoutItemId wdr)"
      using that by (cases "paypalPayoutItemId wdr") (simp_all add: checkItemStatus_def)
    then show "s' = checkItemStatus cl wdr s1
              \<and> (\<not> truthy (paypalPayoutItemId wdr)
                  \<longrightarrow> wallets s' = wallets s \<and> withdrawals s' = withdrawals s)"
      using e l by simp
  qed
  have d: "paypalPayoutItemId wdr = Some iid \<and> iid \<noteq> []
            \<and> getPayoutItemStatus cl iid s1 = (Inr ist, s2)
          \<longrightarrow> checkItemStatus cl wdr s1 =
               (if item_state ist = ''SUCCESS''
                  then saveWithdrawal (wdr\<lparr>status := COMPLETED\<rparr>) s2
                else if item_state ist = ''FAILED''
                  then saveWithdrawal (wdr\<lparr>status := FAILED, failureReason :=
                          Some (js_or (errors_message (item_errors ist))
                                  ''PayPal transaction failed'')\<rparr>)
                        (refundToWallet (wdr\<lparr>status := FAILED, failureReason :=
                          Some (js_or (errors_message (item_errors ist))
                                  ''PayPal transaction failed'')\<rparr>) s2)
                else s2)
              \<and> wallets s2 = wallets s \<and> withdrawals s2 = withdrawals s"
  proof (intro impI, elim conjE)
    assume h: "paypalPayoutItemId wdr = Some iid" "iid \<noteq> []"
      "getPayoutItemStatus cl iid s1 = (Inr ist, s2)"
    have "wallets s2 = wallets s1" "withdrawals s2 = withdrawals s1"
      using getPayoutItemStatus_ledger[of cl iid s1] h(3) by simp_all
    then show "checkItemStatus cl wdr s1 =
               (if item_state ist = ''SUCCESS''
                  then saveWithdrawal (wdr\<lparr>status := COMPLETED\<rparr>) s2
                else if item_state ist = ''FAILED''
                  then saveWithdrawal (wdr\<lparr>status := FAILED, failureReason :=
                          Some (js_or (errors_message (item_errors ist))
                                  ''PayPal transaction failed'')\<rparr>)
                        (refundToWallet (wdr\<lparr>status := FAILED, failureReason :=
                          Some (js_or (errors_message (item_errors ist))
                                  ''PayPal transaction failed'')\<rparr>) s2)
                else s2)
              \<and> wallets s2 = wallets s \<and> withdrawals s2 = withdrawals s"
      using h assms(2) l by (simp add: checkItemStatus_def Let_def)
  qed
  have e: "paypalPayoutItemId wdr = Some iid \<and> iid \<noteq> []
            \<and> getPayoutItemStatus cl iid s1 = (Inl err, s2)
          \<longrightarrow> checkItemStatus cl wdr s1
                = s2\<lparr>console_error := console_error s2 @ [FailedItemStatus iid err]\<rparr>
              \<and> wallets s2 = wallets s \<and> withdrawals s2 = withdrawals s"
  proof (intro impI, elim conjE)
    assume h: "paypalPayoutItemId wdr = Some iid" "iid \<noteq> []"
      "getPayoutItemStatus cl iid s1 = (Inl err, s2)"
    have "wallets s2 = wallets s1" "withdrawals s2 = withdrawals s1"
      using getPayoutItemStatus_ledger[of cl iid s1] h(3) by simp_all
    then show "checkItemStatus cl wdr s1
                = s2\<lparr>console_error := console_error s2 @ [FailedItemStatus iid err]\<rparr>
              \<and> wallets s2 = wallets s \<and> withdrawals s2 = withdrawals s"
      using h assms(2) l by (simp add: checkItemStatus_def)
  qed
  from n a b c d e show ?thesis unfolding s'_def failed_def other_def by (intro conjI)
qed

lemma fetch_example:
  "getPayoutStatus (provider [(''I1'', st)] ist) ''B1'' processing_state =
     (Inr \<lparr>batchId = ''B1'', batch_state = ''PROCESSING'',
            status_items = [\<lparr>payout_item_id = Some ''I1'',
                              transaction_status =
                                Some (normalizeTransactionStatus (provider [(''I1'', st)] ist)
                                        (Some st)),
                              errors = None\<rparr>]\<rparr>,
      processing_state\<lparr>calls := calls processing_state @ [PayoutsGetRequest ''B1'']\<rparr>)"
proof -
  define cl where "cl = provider [(''I1'', st)] ist"
  have c: "client cl n (PayoutsGetRequest ''B1'') = Inr (batch_response ''B1'' [(''I1'', st)])"
    for n
    by (simp add: cl_def provider_def ascii_env_def)
  have "getPayoutStatus cl ''B1'' processing_state =
     (Inr \<lparr>batchId = ''B1'', batch_state = ''PROCESSING'',
            status_items = [\<lparr>payout_item_id = Some ''I1'',
                              transaction_status = Some (normalizeTransactionStatus cl (Some st)),
                              errors = None\<rparr>]\<rparr>,
      processing_state\<lparr>calls := calls processing_state @ [PayoutsGetRequest ''B1'']\<rparr>)"
    by (simp add: getPayoutStatus_def execute_def c batch_response_def normalize_item_def Let_def)
  then show ?thesis unfolding cl_def .
qed

lemma select_example:
  "select_item sent_withdrawal
     [\<lparr>payout_item_id = Some ''I1'', transaction_status = ts, errors = None\<rparr>]
   = Some \<lparr>payout_item_id = Some ''I1'', transaction_status = ts, errors = None\<rparr>"
  by (simp add: select_item_def sent_withdrawal_def)

lemma provider_lowers: "lowers_status_words (provider its ist)"
  unfolding provider_def by (rule ascii_lowers_status_words)

theorem reconciliation_applies_selected_item_witness:
  "wd_id sent_withdrawal < length (withdrawals processing_state)
   \<and> status sent_withdrawal = PROCESSING \<and> paypalBatchId sent_withdrawal = Some ''B1''
   \<and> withdrawals (processWithdrawal (provider [(''I1'', ''Claimed'')] ''PENDING'')
                    sent_withdrawal processing_state)
       = [sent_withdrawal\<lparr>status := COMPLETED\<rparr>]
   \<and> wallets (processWithdrawal (provider [(''I1'', ''Claimed'')] ''PENDING'')
                 sent_withdrawal processing_state)
       = [alice\<lparr>balance := 80\<rparr>]
   \<and> withdrawals (processWithdrawal (provider [(''I1'', ''Returned'')] ''PENDING'')
                    sent_withdrawal processing_state)
       = [sent_withdrawal\<lparr>status := FAILED,
                           failureReason := Some ''PayPal transaction failed''\<rparr>]
   \<and> findWallet ''alice'' (processWithdrawal (provider [(''I1'', ''Returned'')] ''PENDING'')
                    sent_withdrawal processing_state)
       = Some alice
   \<and> processWithdrawal (provider [(''I1'', ''ONHOLD'')] ''PENDING'')
         sent_withdrawal processing_state
       = checkItemStatus (provider [(''I1'', ''ONHOLD'')] ''PENDING'') sent_withdrawal
           (processing_state\<lparr>calls := calls processing_state @ [PayoutsGetRequest ''B1'']\<rparr>)"
proof -
  have h1: "wd_id sent_withdrawal < length (withdrawals processing_state)"
    by (simp add: sent_withdrawal_def processing_state_def)
  have h2: "status sent_withdrawal = PROCESSING" by (simp add: sent_withdrawal_def)
  have h3: "paypalBatchId sent_withdrawal = Some ''B1''" by (simp add: sent_withdrawal_def)
  have h4: "''B1'' \<noteq> []" by simp
  have n: "normalizeTransactionStatus (provider its ist) (Some ''Claimed'') = ''SUCCESS''"
    "normalizeTransactionStatus (provider its ist) (Some ''Returned'') = ''FAILED''"
    "normalizeTransactionStatus (provider its ist) (Some ''ONHOLD'') = ''ONHOLD''" for its ist
    by (simp_all add: normalizeTransactionStatus_def provider_def ascii_env_def str_eval)
  have lw: "lowers_status_words (provider its ist)" for its ist
    by (rule provider_lowers)
  define paid where "paid = \<lparr>payout_item_id = Some ''I1'',
      transaction_status = Some ''SUCCESS'', errors = None\<rparr>"
  define returned where "returned = \<lparr>payout_item_id = Some ''I1'',
      transaction_status = Some ''FAILED'', errors = None\<rparr>"
  define held where "held = \<lparr>payout_item_id = Some ''I1'',
      transaction_status = Some ''ONHOLD'', errors = None\<rparr>"
  define s1 where
    "s1 = processing_state\<lparr>calls := calls processing_state @ [PayoutsGetRequest ''B1'']\<rparr>"
  define batch where "batch = (\<lambda>item.
      \<lparr>batchId = ''B1'', batch_state = ''PROCESSING'', status_items = [item]\<rparr>)"
  have g1: "getPayoutStatus (provider [(''I1'', ''Claimed'')] ''PENDING'') ''B1'' processing_state
              = (Inr (batch paid), s1)"
    and g2: "getPayoutStatus (provider [(''I1'', ''Returned'')] ''PENDING'') ''B1'' processing_state
              = (Inr (batch returned), s1)"
    and g3: "getPayoutStatus (provider [(''I1'', ''ONHOLD'')] ''PENDING'') ''B1'' processing_state
              = (Inr (batch held), s1)"
    by (simp_all add: fetch_example n paid_def returned_def held_def s1_def batch_def)
  have w: "(withdrawals processing_state)[wd_id sent_withdrawal := x] = [x]" for x
    by (simp add: sent_withdrawal_def processing_state_def)
  have fw: "findWallet (wd_creatorId sent_withdrawal) processing_state
              = Some (alice\<lparr>balance := 80\<rparr>)"
    by (simp add: findWallet_def processing_state_def alice_def sent_withdrawal_def)
  have c: "wd_creatorId sent_withdrawal = ''alice''" "amount sent_withdrawal = 20"
    "wallets processing_state = [alice\<lparr>balance := 80\<rparr>]"
    "alice\<lparr>balance := 100\<rparr> = alice"
    by (simp_all add: sent_withdrawal_def processing_state_def alice_def)
  have p: "lowers_status_words (provider [(''I1'', ''Claimed'')] ''PENDING'')
           \<and> select_item sent_withdrawal (status_items (batch paid)) = Some paid
           \<and> transaction_status paid = Some ''SUCCESS''"
    by (simp add: paid_def select_example batch_def lw)
  have r: "lowers_status_words (provider [(''I1'', ''Returned'')] ''PENDING'')
           \<and> select_item sent_withdrawal (status_items (batch returned)) = Some returned
           \<and> transaction_status returned = Some ''FAILED''"
    by (simp add: returned_def select_example batch_def lw)
  have o: "select_item sent_withdrawal (status_items (batch held)) = None
           \<or> (select_item sent_withdrawal (status_items (batch held)) = Some held
               \<and> ((lowers_status_words (provider [(''I1'', ''ONHOLD'')] ''PENDING'')
                    \<and> (transaction_status held = Some ''PENDING''
                        \<or> transaction_status held = Some ''UNKNOWN''))
                   \<or> map_option (toLowerCase (provider [(''I1'', ''ONHOLD'')] ''PENDING''))
                        (transaction_status held) \<notin>
                         {Some ''success'', Some ''completed'', Some ''claimed'',
                          Some ''failed'', Some ''returned'', Some ''refunded'',
                          Some ''blocked''}))"
    by (simp add: held_def select_example batch_def provider_def ascii_env_def str_eval)
  note t1 = reconciliation_applies_selected_item [OF h1 h2 h3 h4 g1, where item = paid]
  note t2 = reconciliation_applies_selected_item [OF h1 h2 h3 h4 g2, where item = returned
      and wal = "alice\<lparr>balance := 80\<rparr>"]
  note t3 = reconciliation_applies_selected_item [OF h1 h2 h3 h4 g3, where item = held]
  have a1: "withdrawals (processWithdrawal (provider [(''I1'', ''Claimed'')] ''PENDING'')
                    sent_withdrawal processing_state)
       = [sent_withdrawal\<lparr>status := COMPLETED\<rparr>]"
    and a2: "wallets (processWithdrawal (provider [(''I1'', ''Claimed'')] ''PENDING'')
                 sent_withdrawal processing_state)
       = [alice\<lparr>balance := 80\<rparr>]"
    using t1 [THEN conjunct2, THEN conjunct1, THEN mp, OF p] by (simp_all add: w c)
  have b0: "js_or (errors_message (errors returned)) ''PayPal transaction failed''
              = ''PayPal transaction failed''"
    by (simp add: returned_def errors_message_def)
  have b1: "withdrawals (processWithdrawal (provider [(''I1'', ''Returned'')] ''PENDING'')
                    sent_withdrawal processing_state)
       = [sent_withdrawal\<lparr>status := FAILED,
                           failureReason := Some ''PayPal transaction failed''\<rparr>]"
    using t2 [THEN conjunct2, THEN conjunct2, THEN conjunct1, THEN mp, OF r, THEN conjunct1]
    by (simp add: w b0)
  have b2: "findWallet ''alice'' (processWithdrawal (provider [(''I1'', ''Returned'')] ''PENDING'')
                    sent_withdrawal processing_state)
       = Some alice"
    using t2 [THEN conjunct2, THEN conjunct2, THEN conjunct1, THEN mp, OF r, THEN conjunct2, THEN conjunct2,
              THEN mp, OF fw]
    by (simp add: c js_whole_amounts)
  have c1: "processWithdrawal (provider [(''I1'', ''ONHOLD'')] ''PENDING'')
         sent_withdrawal processing_state
       = checkItemStatus (provider [(''I1'', ''ONHOLD'')] ''PENDING'') sent_withdrawal s1"
    using t3 [THEN conjunct2, THEN conjunct2, THEN conjunct2, THEN conjunct1, THEN mp, OF o,
              THEN conjunct1] .
  from h1 h2 h3 a1 a2 b1 b2 c1 show ?thesis unfolding s1_def by (intro conjI)
qed

text \<open>
  The same iteration when the selected batch item is PENDING and the item endpoint
  reports the payout as paid: the withdrawal does not stay as it was, it is COMPLETED.
\<close>

theorem pending_item_counterexample:
  "processingWithdrawals processing_state = [sent_withdrawal]
   \<and> fst (getPayoutStatus item_success_client ''B1'' processing_state)
       = Inr \<lparr>batchId = ''B1'', batch_state = ''PROCESSING'', status_items = [pending_item]\<rparr>
   \<and> select_item sent_withdrawal [pending_item] = Some pending_item
   \<and> withdrawals (updateWithdrawalStatuses item_success_client processing_state)
       = [sent_withdrawal\<lparr>status := COMPLETED\<rparr>]
   \<and> withdrawals (updateWithdrawalStatuses item_success_client processing_state)
       \<noteq> withdrawals processing_state"
  by (simp add: item_success_client_def pending_item_def select_item_def example_defs
      service_defs str_eval)

section \<open>forceCheckWithdrawal: the first item\<close>

text \<open>
  C9. For a PROCESSING withdrawal with a batch id, when the batch is fetched and has
  items, \<open>forceCheckWithdrawal\<close> applies the status of the first item, a normalized
  one, whatever the id of that item: its result is that of \<open>updateWithdrawalFromItem\<close>
  on the first item, so SUCCESS saves the withdrawal COMPLETED, FAILED saves it FAILED
  after the credit-back, PENDING and UNKNOWN change nothing. The stored item id plays no
  part. What the lower-case conversion does to the four words is a hypothesis where
  they are named.
\<close>

theorem forceCheck_first_item:
  assumes "findWithdrawal i s = Some wdr" and "status wdr = PROCESSING"
      and "paypalBatchId wdr = Some bid" and "bid \<noteq> []"
      and "getPayoutStatus cl bid s = (Inr ps, s1)"
      and "status_items ps = item # rest"
  shows "forceCheckWithdrawal cl i s =
           (Inr (''Status check completed'', Some (fst (updateWithdrawalFromItem cl wdr item s1))),
            snd (updateWithdrawalFromItem cl wdr item s1))
       \<and> (\<exists>raw. transaction_status item = Some (normalizeTransactionStatus cl raw))
       \<and> (lowers_status_words cl \<and> transaction_status item = Some ''SUCCESS''
          \<longrightarrow> forceCheckWithdrawal cl i s =
                (Inr (''Status check completed'', Some (wdr\<lparr>status := COMPLETED\<rparr>)),
                 saveWithdrawal (wdr\<lparr>status := COMPLETED\<rparr>) s1))
       \<and> (lowers_status_words cl \<and> transaction_status item = Some ''FAILED''
          \<longrightarrow> forceCheckWithdrawal cl i s =
                (Inr (''Status check completed'',
                   Some (wdr\<lparr>status := FAILED, failureReason :=
                        Some (js_or (errors_message (errors item)) ''PayPal transaction failed'')\<rparr>)),
                 saveWithdrawal (wdr\<lparr>status := FAILED, failureReason :=
                        Some (js_or (errors_message (errors item)) ''PayPal transaction failed'')\<rparr>)
                   (refundToWallet (wdr\<lparr>status := FAILED, failureReason :=
                        Some (js_or (errors_message (errors item)) ''PayPal transaction failed'')\<rparr>)
                      s1)))
       \<and> (lowers_status_words cl
            \<and> (transaction_status item = Some ''PENDING''
                \<or> transaction_status item = Some ''UNKNOWN'')
          \<longrightarrow> forceCheckWithdrawal cl i s = (Inr (''Status check completed'', Some wdr), s1))"
proof -
  have t: "truthy (paypalBatchId wdr)" "template (paypalBatchId wdr) = bid"
    using assms(3,4) by simp_all
  have f: "forceCheckWithdrawal cl i s =
           (Inr (''Status check completed'', Some (fst (updateWithdrawalFromItem cl wdr item s1))),
            snd (updateWithdrawalFromItem cl wdr item s1))"
    using assms(1,2,5,6) t by (simp add: forceCheckWithdrawal_def split: prod.splits)
  have n: "\<exists>raw. transaction_status item = Some (normalizeTransactionStatus cl raw)"
    using getPayoutStatus_normalized[OF assms(5)] assms(6) by simp
  have a: "lowers_status_words cl \<and> transaction_status item = Some ''SUCCESS''
          \<longrightarrow> forceCheckWithdrawal cl i s =
                (Inr (''Status check completed'', Some (wdr\<lparr>status := COMPLETED\<rparr>)),
                 saveWithdrawal (wdr\<lparr>status := COMPLETED\<rparr>) s1)"
    by (simp add: f updateWithdrawalFromItem_SUCCESS)
  have b: "lowers_status_words cl \<and> transaction_status item = Some ''FAILED''
          \<longrightarrow> forceCheckWithdrawal cl i s =
                (Inr (''Status check completed'',
                   Some (wdr\<lparr>status := FAILED, failureReason :=
                        Some (js_or (errors_message (errors item)) ''PayPal transaction failed'')\<rparr>)),
                 saveWithdrawal (wdr\<lparr>status := FAILED, failureReason :=
                        Some (js_or (errors_message (errors item)) ''PayPal transaction failed'')\<rparr>)
                   (refundToWallet (wdr\<lparr>status := FAILED, failureReason :=
                        Some (js_or (errors_message (errors item)) ''PayPal transaction failed'')\<rparr>)
                      s1))"
    by (simp add: f updateWithdrawalFromItem_FAILED)
  have c: "lowers_status_words cl
            \<and> (transaction_status item = Some ''PENDING''
                \<or> transaction_status item = Some ''UNKNOWN'')
          \<longrightarrow> forceCheckWithdrawal cl i s = (Inr (''Status check completed'', Some wdr), s1)"
    by (simp add: f updateWithdrawalFromItem_PENDING)
  from f n a b c show ?thesis by (intro conjI)
qed

theorem forceCheck_first_item_witness:
  "findWithdrawal 0 processing_state = Some sent_withdrawal
   \<and> paypalPayoutItemId sent_withdrawal = Some ''I1''
   \<and> forceCheckWithdrawal (provider [(''I9'', ''success''), (''I1'', ''pending'')] ''PENDING'') 0
         processing_state
       = (Inr (''Status check completed'', Some (sent_withdrawal\<lparr>status := COMPLETED\<rparr>)),
          processing_state\<lparr>withdrawals := [sent_withdrawal\<lparr>status := COMPLETED\<rparr>],
            calls := calls processing_state @ [PayoutsGetRequest ''B1'']\<rparr>)"
proof -
  define cl where "cl = provider [(''I9'', ''success''), (''I1'', ''pending'')] ''PENDING''"
  define first_item where
    "first_item = \<lparr>payout_item_id = Some ''I9'', transaction_status = Some ''SUCCESS'', errors = None\<rparr>"
  define other_item where
    "other_item = \<lparr>payout_item_id = Some ''I1'', transaction_status = Some ''PENDING'', errors = None\<rparr>"
  define ps where
    "ps = \<lparr>batchId = ''B1'', batch_state = ''PROCESSING'', status_items = [first_item, other_item]\<rparr>"
  define s1 where "s1 = processing_state\<lparr>calls := calls processing_state @ [PayoutsGetRequest ''B1'']\<rparr>"
  have h1: "findWithdrawal 0 processing_state = Some sent_withdrawal"
    by (simp add: findWithdrawal_def processing_state_def)
  have h2: "status sent_withdrawal = PROCESSING" by (simp add: sent_withdrawal_def)
  have h3: "paypalBatchId sent_withdrawal = Some ''B1''" by (simp add: sent_withdrawal_def)
  have h4: "''B1'' \<noteq> []" by simp
  have h5: "getPayoutStatus cl ''B1'' processing_state = (Inr ps, s1)"
    by (simp add: cl_def ps_def s1_def first_item_def other_item_def getPayoutStatus_def
        execute_def provider_def ascii_env_def batch_response_def normalize_item_def
        normalizeTransactionStatus_def str_eval Let_def)
  have h6: "status_items ps = first_item # [other_item]" by (simp add: ps_def)
  have i: "paypalPayoutItemId sent_withdrawal = Some ''I1''" by (simp add: sent_withdrawal_def)
  have t: "lowers_status_words cl \<and> transaction_status first_item = Some ''SUCCESS''"
    by (simp add: first_item_def cl_def provider_lowers)
  have sv: "saveWithdrawal (sent_withdrawal\<lparr>status := COMPLETED\<rparr>) s1 =
      processing_state\<lparr>withdrawals := [sent_withdrawal\<lparr>status := COMPLETED\<rparr>],
            calls := calls processing_state @ [PayoutsGetRequest ''B1'']\<rparr>"
    by (simp add: saveWithdrawal_def s1_def processing_state_def sent_withdrawal_def)
  from forceCheck_first_item [OF h1 h2 h3 h4 h5 h6, THEN conjunct2, THEN conjunct2,
      THEN conjunct1, THEN mp, OF t]
  have "forceCheckWithdrawal cl 0 processing_state
       = (Inr (''Status check completed'', Some (sent_withdrawal\<lparr>status := COMPLETED\<rparr>)),
          saveWithdrawal (sent_withdrawal\<lparr>status := COMPLETED\<rparr>) s1)" .
  then show ?thesis using h1 i unfolding sv cl_def by (intro conjI)
qed

section \<open>A failed withdrawal without a wallet\<close>

lemma findWallet_step_None:
  assumes "ledger_step wdr s w1 s'" "findWallet c s = None"
  shows "findWallet c s' = None"
proof -
  have "wallets s' = wallets s \<or> wallets s' = wallets (refundToWallet wdr s)"
    using assms(1) unfolding ledger_step_def by auto
  then show ?thesis
  proof
    assume "wallets s' = wallets s"
    then show ?thesis using assms(2) by (simp add: findWallet_def)
  next
    assume "wallets s' = wallets (refundToWallet wdr s)"
    then have "findWallet c s' = findWallet c (refundToWallet wdr s)" by (rule findWallet_cong)
    then show ?thesis using assms(2) by (simp add: findWallet_refund_None)
  qed
qed

lemma processAll_no_wallet:
  "findWallet c s = None \<Longrightarrow> findWallet c (processAll cl rest s) = None"
proof (induction rest arbitrary: s)
  case Nil
  then show ?case by simp
next
  case (Cons wdr rest)
  obtain w2 where "ledger_step wdr s w2 (processWithdrawal cl wdr s)"
    using processWithdrawal_step by blast
  then have "findWallet c (processWithdrawal cl wdr s) = None"
    using Cons.prems by (rule findWallet_step_None)
  then show ?case using Cons.IH by simp
qed

text \<open>
  C10. When there is no wallet for the creator of a withdrawal, \<open>refundToWallet\<close> does
  nothing. A failed batch item then saves the withdrawal FAILED and nothing else, and so
  does a FAILED answer of the item endpoint; neither raises an error, the wallet table
  is unchanged, and a whole tick leaves the creator without a wallet.
\<close>

theorem refund_skipped_without_wallet:
  assumes "findWallet (wd_creatorId wdr) s = None"
  shows "refundToWallet wdr s = s
       \<and> (map_option (toLowerCase cl) (transaction_status item)
             \<in> {Some ''failed'', Some ''returned'', Some ''refunded'', Some ''blocked''}
           \<longrightarrow> updateWithdrawalFromItem cl wdr item s =
                 (wdr\<lparr>status := FAILED, failureReason :=
                    Some (js_or (errors_message (errors item))
                            (''PayPal transaction ''
                               @ template (map_option (toLowerCase cl) (transaction_status item))))\<rparr>,
                  saveWithdrawal (wdr\<lparr>status := FAILED, failureReason :=
                    Some (js_or (errors_message (errors item))
                            (''PayPal transaction ''
                               @ template (map_option (toLowerCase cl) (transaction_status item))))\<rparr>) s))
       \<and> (paypalPayoutItemId wdr = Some iid \<and> iid \<noteq> [] \<and> status wdr = PROCESSING
            \<and> getPayoutItemStatus cl iid s = (Inr ist, s1) \<and> item_state ist = ''FAILED''
           \<longrightarrow> checkItemStatus cl wdr s =
                 saveWithdrawal (wdr\<lparr>status := FAILED, failureReason :=
                    Some (js_or (errors_message (item_errors ist)) ''PayPal transaction failed'')\<rparr>) s1)
       \<and> wallets (snd (updateWithdrawalFromItem cl wdr item s)) = wallets s
       \<and> wallets (checkItemStatus cl wdr s) = wallets s
       \<and> findWallet (wd_creatorId wdr) (updateWithdrawalStatuses cl s) = None"
proof -
  have r: "refundToWallet w s = s" if "wd_creatorId w = wd_creatorId wdr" for w
    using assms that by (simp add: refundToWallet_def)
  have a: "refundToWallet wdr s = s" by (simp add: r)
  have b: "map_option (toLowerCase cl) (transaction_status item)
             \<in> {Some ''failed'', Some ''returned'', Some ''refunded'', Some ''blocked''}
           \<longrightarrow> updateWithdrawalFromItem cl wdr item s =
                 (wdr\<lparr>status := FAILED, failureReason :=
                    Some (js_or (errors_message (errors item))
                            (''PayPal transaction ''
                               @ template (map_option (toLowerCase cl) (transaction_status item))))\<rparr>,
                  saveWithdrawal (wdr\<lparr>status := FAILED, failureReason :=
                    Some (js_or (errors_message (errors item))
                            (''PayPal transaction ''
                               @ template (map_option (toLowerCase cl) (transaction_status item))))\<rparr>) s)"
    by (auto simp: updateWithdrawalFromItem_def Let_def r)
  have c: "paypalPayoutItemId wdr = Some iid \<and> iid \<noteq> [] \<and> status wdr = PROCESSING
            \<and> getPayoutItemStatus cl iid s = (Inr ist, s1) \<and> item_state ist = ''FAILED''
           \<longrightarrow> checkItemStatus cl wdr s =
                 saveWithdrawal (wdr\<lparr>status := FAILED, failureReason :=
                    Some (js_or (errors_message (item_errors ist)) ''PayPal transaction failed'')\<rparr>) s1"
  proof (intro impI, elim conjE)
    assume h: "paypalPayoutItemId wdr = Some iid" "iid \<noteq> []" "status wdr = PROCESSING"
      "getPayoutItemStatus cl iid s = (Inr ist, s1)" "item_state ist = ''FAILED''"
    have "wallets s1 = wallets s"
      using getPayoutItemStatus_ledger(1)[of cl iid s] h(4) by simp
    then have "findWallet (wd_creatorId wdr) s1 = None"
      using assms by (simp add: findWallet_def)
    then have "refundToWallet w s1 = s1" if "wd_creatorId w = wd_creatorId wdr" for w
      using that by (simp add: refundToWallet_def)
    then show "checkItemStatus cl wdr s =
                 saveWithdrawal (wdr\<lparr>status := FAILED, failureReason :=
                    Some (js_or (errors_message (item_errors ist)) ''PayPal transaction failed'')\<rparr>) s1"
      using h by (simp add: checkItemStatus_def Let_def)
  qed
  have "wallets (snd (updateWithdrawalFromItem cl wdr item s)) = wallets s
          \<or> wallets (snd (updateWithdrawalFromItem cl wdr item s)) = wallets (refundToWallet wdr s)"
    using updateWithdrawalFromItem_step[where wdr = wdr and s = s and item = item and cl = cl] unfolding ledger_step_def by auto
  then have d: "wallets (snd (updateWithdrawalFromItem cl wdr item s)) = wallets s"
    by (simp add: a)
  obtain w1 where "ledger_step wdr s w1 (checkItemStatus cl wdr s)"
    using checkItemStatus_step by blast
  then have "wallets (checkItemStatus cl wdr s) = wallets s
          \<or> wallets (checkItemStatus cl wdr s) = wallets (refundToWallet wdr s)"
    unfolding ledger_step_def by auto
  then have e: "wallets (checkItemStatus cl wdr s) = wallets s"
    by (simp add: a)
  have f: "findWallet (wd_creatorId wdr) (updateWithdrawalStatuses cl s) = None"
    unfolding updateWithdrawalStatuses_def using assms by (rule processAll_no_wallet)
  from a b c d e f show ?thesis by (intro conjI)
qed

theorem refund_skipped_without_wallet_witness:
  "findWallet (wd_creatorId sent_withdrawal) orphan_state = None
   \<and> updateWithdrawalFromItem (provider [(''I1'', ''returned'')] ''PENDING'') sent_withdrawal
         \<lparr>payout_item_id = Some ''I1'', transaction_status = Some ''FAILED'', errors = None\<rparr>
         orphan_state
       = (sent_withdrawal\<lparr>status := FAILED, failureReason := Some ''PayPal transaction failed''\<rparr>,
          orphan_state\<lparr>withdrawals :=
            [sent_withdrawal\<lparr>status := FAILED,
                              failureReason := Some ''PayPal transaction failed''\<rparr>]\<rparr>)
   \<and> findWallet (wd_creatorId sent_withdrawal)
         (updateWithdrawalStatuses (provider [(''I1'', ''returned'')] ''PENDING'') orphan_state)
       = None"
proof -
  define item where
    "item = \<lparr>payout_item_id = Some ''I1'', transaction_status = Some ''FAILED'', errors = None\<rparr>"
  have h: "findWallet (wd_creatorId sent_withdrawal) orphan_state = None"
    by (simp add: findWallet_def orphan_state_def)
  have m: "map_option (toLowerCase (provider [(''I1'', ''returned'')] ''PENDING'')) (transaction_status item)
             \<in> {Some ''failed'', Some ''returned'', Some ''refunded'', Some ''blocked''}"
    by (simp add: item_def provider_def ascii_env_def str_eval)
  have r: "js_or (errors_message (errors item))
             (''PayPal transaction '' @ template (map_option (toLowerCase (provider [(''I1'', ''returned'')] ''PENDING'')) (transaction_status item)))
           = ''PayPal transaction failed''"
    by (simp add: item_def errors_message_def provider_def ascii_env_def str_eval)
  have sv: "saveWithdrawal (sent_withdrawal\<lparr>status := FAILED,
                failureReason := Some ''PayPal transaction failed''\<rparr>) orphan_state
         = orphan_state\<lparr>withdrawals :=
            [sent_withdrawal\<lparr>status := FAILED,
                              failureReason := Some ''PayPal transaction failed''\<rparr>]\<rparr>"
    by (simp add: saveWithdrawal_def orphan_state_def processing_state_def sent_withdrawal_def)
  note t = refund_skipped_without_wallet [OF h, where item = item
      and cl = "provider [(''I1'', ''returned'')] ''PENDING''"]
  have "updateWithdrawalFromItem (provider [(''I1'', ''returned'')] ''PENDING'') sent_withdrawal item orphan_state
       = (sent_withdrawal\<lparr>status := FAILED, failureReason := Some ''PayPal transaction failed''\<rparr>,
          saveWithdrawal (sent_withdrawal\<lparr>status := FAILED,
                failureReason := Some ''PayPal transaction failed''\<rparr>) orphan_state)"
    using t [THEN conjunct2, THEN conjunct1, THEN mp, OF m] unfolding r .
  moreover have "findWallet (wd_creatorId sent_withdrawal)
         (updateWithdrawalStatuses (provider [(''I1'', ''returned'')] ''PENDING'') orphan_state)
       = None"
    using t [THEN conjunct2, THEN conjunct2, THEN conjunct2, THEN conjunct2, THEN conjunct2] .
  ultimately show ?thesis using h unfolding sv item_def by (intro conjI)
qed

end
